theory Spec2Isabelle
  imports Complex_Main "HOL-Library.Char_ord" "HOL-Library.List_Lexorder"
begin

section \<open>Values and errors\<close>

text \<open>
  The three projects are Pulumi programs written in TypeScript. Each one is a straight
  sequence of resource declarations \<^verbatim>\<open>new T(name, args, opts)\<close>; the arguments are
  literals, outputs of other resources, or values computed from such outputs in an
  \<^verbatim>\<open>apply\<close> callback. A callback that raises rejects the output it computes.
\<close>

datatype error =
    TypeError
  | ConfigMissingError string
  | OutputMissingError string

text \<open>
  An argument value. \<open>Out v p\<close> is the output property at path \<open>p\<close> of the resource
  bound to the TypeScript constant \<open>v\<close>; \<open>From v x\<close> is a value \<open>x\<close> computed in a
  callback over an output of \<open>v\<close>; \<open>Throw e\<close> is an output whose callback raised \<open>e\<close>;
  \<open>Res v\<close> is the resource \<open>v\<close> itself passed as an argument; \<open>Const\<close> and \<open>Call\<close>
  name a constant or a function of the provider libraries, left uninterpreted.
\<close>

datatype pv =
    Str string
  | Num rat
  | Bool bool
  | Undefined
  | Out string "string list"
  | From string pv
  | Throw error
  | Res string
  | Const string
  | Call string pv
  | Secret pv
  | Interp "pv list"
  | Arr "pv list"
  | Obj "(string \<times> pv) list"

datatype kind = New | Get

record decl =
  var :: string
  kind :: kind
  rtype :: string
  rname :: string
  args :: "(string \<times> pv) list"
  opt_provider :: "string option"
  dependsOn :: "string list"
  protect :: bool
  ignoreChanges :: "string list"
  madeIn :: "string list"

definition resource :: "string \<Rightarrow> string \<Rightarrow> string \<Rightarrow> (string \<times> pv) list \<Rightarrow> decl" where
  "resource v t n a =
     \<lparr>var = v, kind = New, rtype = t, rname = n, args = a, opt_provider = None,
      dependsOn = [], protect = False, ignoreChanges = [], madeIn = []\<rparr>"

text \<open>What must exist before the engine can create a resource: the resources its
  arguments are computed from, those listed in \<^verbatim>\<open>dependsOn\<close>, its provider, and, for a
  declaration made inside a callback, the resources over whose outputs the callback
  runs (the field \<open>madeIn\<close>): the callback runs only once these outputs are there.\<close>

fun refs :: "pv \<Rightarrow> string list" where
  "refs (Out v p) = [v]"
| "refs (From v x) = v # refs x"
| "refs (Res v) = [v]"
| "refs (Call f x) = refs x"
| "refs (Secret x) = refs x"
| "refs (Interp xs) = concat (map refs xs)"
| "refs (Arr xs) = concat (map refs xs)"
| "refs (Obj kvs) = concat (map (\<lambda>kv. refs (snd kv)) kvs)"
| "refs _ = []"

fun throws :: "pv \<Rightarrow> bool" where
  "throws (Throw e) = True"
| "throws (From v x) = throws x"
| "throws (Call f x) = throws x"
| "throws (Secret x) = throws x"
| "throws (Interp xs) = list_ex throws xs"
| "throws (Arr xs) = list_ex throws xs"
| "throws (Obj kvs) = list_ex (\<lambda>kv. throws (snd kv)) kvs"
| "throws _ = False"

definition deps :: "decl \<Rightarrow> string list" where
  "deps d = concat (map (\<lambda>kv. refs (snd kv)) (args d)) @ dependsOn d @
            (case opt_provider d of None \<Rightarrow> [] | Some p \<Rightarrow> [p]) @ madeIn d"

definition rejected :: "decl \<Rightarrow> bool" where
  "rejected d = list_ex (\<lambda>kv. throws (snd kv)) (args d)"

definition with_provider :: "decl \<Rightarrow> decl" where
  "with_provider d = d\<lparr>opt_provider := Some ''provider''\<rparr>"

text \<open>An output computed by a callback over an output of \<open>v\<close>: the callback's value, or
  a rejected output when the callback raises.\<close>

definition output_of :: "string \<Rightarrow> error + pv \<Rightarrow> pv" where
  "output_of v r = From v (case r of Inl e \<Rightarrow> Throw e | Inr x \<Rightarrow> x)"

section \<open>JavaScript objects, configuration, stack references\<close>

text \<open>
  \<^verbatim>\<open>obj[k]\<close> on a plain object finds an own property, else a property inherited from
  \<^verbatim>\<open>Object.prototype\<close>, else is \<^verbatim>\<open>undefined\<close>. Reading a member of \<^verbatim>\<open>undefined\<close>
  raises a TypeError; the inherited properties are functions (or the prototype object),
  which have no \<^verbatim>\<open>id\<close> and no \<^verbatim>\<open>arn\<close>, so reading these members gives \<^verbatim>\<open>undefined\<close>.
\<close>

definition object_prototype :: "string list" where
  "object_prototype =
     [''constructor'', ''__defineGetter__'', ''__defineSetter__'', ''hasOwnProperty'',
      ''__lookupGetter__'', ''__lookupSetter__'', ''isPrototypeOf'',
      ''propertyIsEnumerable'', ''toString'', ''valueOf'', ''__proto__'',
      ''toLocaleString'']"

datatype 'a property = Own 'a | Inherited | Missing

definition js_index :: "(string \<rightharpoonup> 'a) \<Rightarrow> string \<Rightarrow> 'a property" where
  "js_index obj k =
     (case obj k of
        Some v \<Rightarrow> Own v
      | None \<Rightarrow> if k \<in> set object_prototype then Inherited else Missing)"

definition js_member :: "'a property \<Rightarrow> ('a \<Rightarrow> string) \<Rightarrow> error + pv" where
  "js_member x f =
     (case x of
        Own a \<Rightarrow> Inr (Str (f a))
      | Inherited \<Rightarrow> Inr Undefined
      | Missing \<Rightarrow> Inl TypeError)"

text \<open>\<^verbatim>\<open>new pulumi.Config(ns).require(k)\<close> raises when the key is not set.\<close>

definition require :: "string \<Rightarrow> (string \<rightharpoonup> string) \<Rightarrow> string \<Rightarrow> error + string" where
  "require ns cfg k =
     (case cfg (ns @ '':'' @ k) of
        None \<Rightarrow> Inl (ConfigMissingError (ns @ '':'' @ k))
      | Some v \<Rightarrow> Inr v)"

text \<open>A stack reference holds the outputs the referenced stack published: output name
  to value. The class is the library's, not the repository's; of it only the two ways
  of reading a name are taken, the one giving \<^verbatim>\<open>undefined\<close> and the other raising when
  the name is not there.\<close>

type_synonym 'a StackReference = "string \<rightharpoonup> 'a"

definition getOutput :: "'a StackReference \<Rightarrow> string \<Rightarrow> 'a option" where
  "getOutput sr k = sr k"

definition requireOutput :: "'a StackReference \<Rightarrow> string \<Rightarrow> error + 'a" where
  "requireOutput sr k =
     (case sr k of None \<Rightarrow> Inl (OutputMissingError k) | Some v \<Rightarrow> Inr v)"

text \<open>Template literals print an array index in decimal. The names the service
  project lowers (its secrets' names) are ASCII, on which \<^verbatim>\<open>toLocaleLowerCase\<close> maps
  \<open>A\<close> to \<open>Z\<close> to \<open>a\<close> to \<open>z\<close> and leaves the rest.\<close>

fun show_nat :: "nat \<Rightarrow> string" where
  "show_nat n =
     (if n < 10 then [char_of (48 + n)]
      else show_nat (n div 10) @ [char_of (48 + n mod 10)])"

definition toLocaleLowerCase :: "string \<Rightarrow> string" where
  "toLocaleLowerCase s =
     map (\<lambda>c. let n = (of_char c :: nat) in
               if 65 \<le> n \<and> n \<le> 90 then char_of (n + 32) else c) s"

section \<open>The account project\<close>

record Account =
  id' :: string
  arn :: string

type_synonym Accounts = "string \<rightharpoonup> Account"

definition aws_devAccountEmailId :: decl where
  "aws_devAccountEmailId =
     resource ''devAccountEmailId'' ''random.RandomId'' ''dev-account-email-id''
       [(''byteLength'', Num 4)]"

definition aws_devAccount :: decl where
  "aws_devAccount =
     (resource ''devAccount'' ''aws.organizations.Account'' ''development-account''
        [(''name'', Str ''Development''),
         (''email'', Interp [Str ''superadmin+'', Out ''devAccountEmailId'' [''hex''],
                             Str ''@example.com'']),
         (''roleName'', Str ''OrganizationalAccountAccessRole''),
         (''closeOnDeletion'', Bool True)])
     \<lparr>protect := True\<rparr>"

definition aws_program :: "decl list" where
  "aws_program = [aws_devAccountEmailId, aws_devAccount]"

text \<open>The exported mapping, once the engine has resolved \<^verbatim>\<open>devAccount.id\<close> to the
  identifier \<open>devAccountId\<close> that the cloud gave the account.\<close>

definition aws_accounts :: "string \<Rightarrow> Accounts" where
  "aws_accounts devAccountId =
     [''dev'' \<mapsto>
        \<lparr>id' = devAccountId,
         arn = ''arn:aws:iam::'' @ devAccountId @ '':role/OrganizationalAccountAccessRole''\<rparr>]"

text \<open>The outputs of the account project's stack as the other projects read them. Its
  other export, \<^verbatim>\<open>devAccount\<close>, is the resource object, which no project reads.\<close>

definition aws_outputs :: "string \<Rightarrow> Accounts StackReference" where
  "aws_outputs devAccountId = [''accounts'' \<mapsto> aws_accounts devAccountId]"

section \<open>The environment of a run\<close>

text \<open>
  What a run of the shared or of the service project reads from outside the program:
  the project and stack names, the configuration, the outputs of the two referenced
  stacks (the shared stack's outputs are resource objects, kept opaque), the DKIM tokens
  the e-mail service hands back, and the availability zones the cloud lists.
\<close>

record env =
  project :: string
  stack :: string
  config :: "string \<rightharpoonup> string"
  awsMainStack :: "Accounts StackReference"
  shared :: "unit StackReference"
  dkimTokens :: "string list"
  azNames :: "string list"

section \<open>The shared project\<close>

definition shared_awsMainStack :: decl where
  "shared_awsMainStack =
     (resource ''awsMainStack'' ''pulumi.StackReference'' ''example/aws/prod'' [])
     \<lparr>kind := Get\<rparr>"

text \<open>\<^verbatim>\<open>accounts.apply((accounts) => accounts[stack].id)\<close> and its twin for \<^verbatim>\<open>arn\<close>, over
  the one output read by \<^verbatim>\<open>getOutput\<close>, which is \<^verbatim>\<open>undefined\<close> when the stack has no
  such output.\<close>

definition shared_accounts :: "env \<Rightarrow> Accounts option" where
  "shared_accounts e = getOutput (awsMainStack e) ''accounts''"

definition shared_account_member :: "env \<Rightarrow> (Account \<Rightarrow> string) \<Rightarrow> error + pv" where
  "shared_account_member e f =
     (case shared_accounts e of
        None \<Rightarrow> Inl TypeError
      | Some accounts \<Rightarrow> js_member (js_index accounts (stack e)) f)"

definition shared_provider :: "env \<Rightarrow> string \<Rightarrow> decl" where
  "shared_provider e region =
     resource ''provider'' ''aws.Provider'' ''scoped-provider''
       [(''region'', Str region),
        (''allowedAccountIds'',
           Arr [output_of ''awsMainStack'' (shared_account_member e id')]),
        (''assumeRole'',
           Obj [(''roleArn'', output_of ''awsMainStack'' (shared_account_member e arn))])]"

definition shared_cloudflareZone :: "env \<Rightarrow> string \<Rightarrow> decl" where
  "shared_cloudflareZone e cfZoneId =
     (resource ''cloudflareZone'' ''cf.Zone'' (project e @ ''-zone-'' @ stack e)
        [(''id'', Str cfZoneId)])
     \<lparr>kind := Get\<rparr>"

definition shared_sesDomainIdentity :: "env \<Rightarrow> decl" where
  "shared_sesDomainIdentity e =
     with_provider
       (resource ''sesDomainIdentity'' ''aws.ses.DomainIdentity''
          (project e @ ''-domain-identity-'' @ stack e)
          [(''domain'', Out ''cloudflareZone'' [''zone''])])"

definition shared_sesDomainDkim :: "env \<Rightarrow> decl" where
  "shared_sesDomainDkim e =
     with_provider
       (resource ''sesDomainDkim'' ''aws.ses.DomainDkim''
          (project e @ ''-domain-dkim-'' @ stack e)
          [(''domain'', Out ''sesDomainIdentity'' [''domain''])])"

text \<open>One record for each token, made inside the callback over
  \<^verbatim>\<open>sesDomainDkim.dkimTokens\<close>. Inside the callback a token is a plain string, so the
  record's arguments depend on the zone only.\<close>

definition shared_sesDomainDkimRecord :: "env \<Rightarrow> string \<Rightarrow> nat \<Rightarrow> decl" where
  "shared_sesDomainDkimRecord e token index =
     (resource (''sesDomainDkimRecords['' @ show_nat index @ '']'') ''cf.Record''
        (project e @ ''-ses-dkim-'' @ stack e @ ''-'' @ show_nat index)
        [(''zoneId'', Out ''cloudflareZone'' [''id'']),
         (''name'', Interp [Str token, Str ''._domainkey'']),
         (''type'', Str ''CNAME''),
         (''value'', Interp [Str token, Str ''.dkim.amazonses.com'']),
         (''ttl'', Num 60),
         (''proxied'', Bool False)])
     \<lparr>madeIn := [''sesDomainDkim'']\<rparr>"

definition shared_sesDomainDkimRecords :: "env \<Rightarrow> decl list" where
  "shared_sesDomainDkimRecords e =
     map (\<lambda>(token, index). shared_sesDomainDkimRecord e token index)
       (zip (dkimTokens e) [0 ..< length (dkimTokens e)])"

definition shared_sesRecordVerificationRecord :: "env \<Rightarrow> decl" where
  "shared_sesRecordVerificationRecord e =
     resource ''sesRecordVerificationRecord'' ''cf.Record''
       (project e @ ''-ses-verification-'' @ stack e)
       [(''name'', Interp [Str ''_amazonses.'', Out ''sesDomainIdentity'' [''domain'']]),
        (''zoneId'', Out ''cloudflareZone'' [''id'']),
        (''type'', Str ''TXT''),
        (''value'', Out ''sesDomainIdentity'' [''verificationToken'']),
        (''ttl'', Num 60),
        (''proxied'', Bool False)]"

definition shared_sesDomainVerification :: "env \<Rightarrow> decl" where
  "shared_sesDomainVerification e =
     with_provider
       ((resource ''sesDomainVerification'' ''aws.ses.DomainIdentityVerification''
           (project e @ ''-ses-domain-verification-'' @ stack e)
           [(''domain'', Out ''sesDomainIdentity'' [''domain''])])
        \<lparr>dependsOn := [''sesRecordVerificationRecord'']\<rparr>)"

definition shared_certificate :: "env \<Rightarrow> decl" where
  "shared_certificate e =
     with_provider
       (resource ''certificate'' ''aws.acm.Certificate''
          (project e @ ''-certificate-'' @ stack e)
          [(''domainName'', Interp [Str ''*.'', Out ''cloudflareZone'' [''zone'']]),
           (''validationMethod'', Str ''DNS'')])"

definition shared_certificateValidation :: "env \<Rightarrow> decl" where
  "shared_certificateValidation e =
     with_provider
       (resource ''certificateValidation'' ''aws.acm.CertificateValidation''
          (project e @ ''-certificate-validation-'' @ stack e)
          [(''certificateArn'', Out ''certificate'' [''arn''])])"

definition shared_certificateValidationRecord :: "env \<Rightarrow> decl" where
  "shared_certificateValidationRecord e =
     resource ''certificateValidationRecord'' ''cf.Record''
       (project e @ ''-certificate-validation-'' @ stack e)
       [(''name'',
           Out ''certificate'' [''domainValidationOptions'', ''0'', ''resourceRecordName'']),
        (''zoneId'', Out ''cloudflareZone'' [''id'']),
        (''type'',
           Out ''certificate'' [''domainValidationOptions'', ''0'', ''resourceRecordType'']),
        (''value'',
           Out ''certificate'' [''domainValidationOptions'', ''0'', ''resourceRecordValue'']),
        (''ttl'', Num 60),
        (''proxied'', Bool False)]"

definition shared_vpc :: "env \<Rightarrow> decl" where
  "shared_vpc e =
     with_provider
       (resource ''vpc'' ''awsx.ec2.Vpc'' (project e @ ''-vpc-'' @ stack e)
          [(''enableDnsHostnames'', Bool True),
           (''enableDnsSupport'', Bool True),
           (''natGateways'',
              Obj [(''strategy'', Const ''awsx.ec2.NatGatewayStrategy.Single'')])])"

definition shared_loadBalancerSecurityGroup :: "env \<Rightarrow> decl" where
  "shared_loadBalancerSecurityGroup e =
     with_provider
       (resource ''loadBalancerSecurityGroup'' ''aws.ec2.SecurityGroup''
          (project e @ ''-lb-sg-'' @ stack e)
          [(''vpcId'', Out ''vpc'' [''vpcId'']),
           (''egress'',
              Arr [Obj [(''fromPort'', Num 0), (''toPort'', Num 0), (''protocol'', Str ''-1''),
                        (''cidrBlocks'', Arr [Str ''0.0.0.0/0'']),
                        (''ipv6CidrBlocks'', Arr [Str ''::/0''])]]),
           (''ingress'',
              Arr [Obj [(''fromPort'', Num 0), (''toPort'', Num 0), (''protocol'', Str ''-1''),
                        (''cidrBlocks'', Arr [Str ''0.0.0.0/0'']),
                        (''ipv6CidrBlocks'', Arr [Str ''::/0''])]])])"

definition shared_loadBalancer :: "env \<Rightarrow> decl" where
  "shared_loadBalancer e =
     with_provider
       (resource ''loadBalancer'' ''aws.lb.LoadBalancer'' (project e @ ''-lb-'' @ stack e)
          [(''loadBalancerType'', Str ''application''),
           (''securityGroups'', Arr [Out ''loadBalancerSecurityGroup'' [''id'']]),
           (''subnets'', Out ''vpc'' [''publicSubnetIds''])])"

definition shared_listener :: "env \<Rightarrow> decl" where
  "shared_listener e =
     with_provider
       (resource ''listener'' ''aws.lb.Listener'' (project e @ ''-listener-'' @ stack e)
          [(''loadBalancerArn'', Out ''loadBalancer'' [''arn'']),
           (''port'', Num 443),
           (''protocol'', Str ''HTTPS''),
           (''certificateArn'', Out ''certificate'' [''arn'']),
           (''sslPolicy'', Str ''ELBSecurityPolicy-TLS13-1-2-2021-06''),
           (''defaultActions'',
              Arr [Obj [(''type'', Str ''fixed-response''),
                        (''fixedResponse'',
                           Obj [(''statusCode'', Str ''404''),
                                (''contentType'', Str ''text/plain''),
                                (''messageBody'', Str ''Not found'')])]])])"

definition shared_ecsCluster :: "env \<Rightarrow> decl" where
  "shared_ecsCluster e =
     with_provider
       (resource ''ecsCluster'' ''aws.ecs.Cluster'' (project e @ ''-cluster-'' @ stack e)
          [(''configuration'',
              Obj [(''executeCommandConfiguration'',
                      Obj [(''logging'', Str ''OVERRIDE''),
                           (''logConfiguration'',
                              Obj [(''cloudWatchEncryptionEnabled'', Bool True),
                                   (''cloudWatchLogGroupName'',
                                      Str (project e @ ''-cluster-lg-'' @ stack e))])])])])"

definition shared_rdsSecurityGroup :: "env \<Rightarrow> decl" where
  "shared_rdsSecurityGroup e =
     with_provider
       (resource ''rdsSecurityGroup'' ''aws.ec2.SecurityGroup''
          (project e @ ''-rds-cluster-sg-'' @ stack e)
          [(''vpcId'', Out ''vpc'' [''vpc'', ''id'']),
           (''ingress'',
              Arr [Obj [(''protocol'', Str ''tcp''), (''fromPort'', Num 5432),
                        (''toPort'', Num 5432), (''cidrBlocks'', Arr [Str ''0.0.0.0/0''])]]),
           (''egress'',
              Arr [Obj [(''protocol'', Str ''-1''), (''fromPort'', Num 0), (''toPort'', Num 0),
                        (''cidrBlocks'', Arr [Str ''0.0.0.0/0''])]])])"

definition shared_rdsSubnetGroup :: "env \<Rightarrow> decl" where
  "shared_rdsSubnetGroup e =
     with_provider
       (resource ''rdsSubnetGroup'' ''aws.rds.SubnetGroup''
          (project e @ ''-rds-cluster-subnet-group-'' @ stack e)
          [(''subnetIds'', Out ''vpc'' [''publicSubnetIds''])])"

definition shared_rdsInstanceMasterPassword :: "env \<Rightarrow> decl" where
  "shared_rdsInstanceMasterPassword e =
     resource ''rdsInstanceMasterPassword'' ''RandomPassword''
       (project e @ ''-rds-cluster-password-'' @ stack e)
       [(''length'', Num 32), (''special'', Bool False)]"

text \<open>\<^verbatim>\<open>availabilityZones.then((az) => az.names.sort()[0])\<close>: the least name in the
  order of the character codes, or \<^verbatim>\<open>undefined\<close> when the cloud lists none. The list
  comes from a function call, not from a resource, so the value waits for nothing.\<close>

definition shared_firstAzName :: "env \<Rightarrow> pv" where
  "shared_firstAzName e = (case sort (azNames e) of [] \<Rightarrow> Undefined | n # _ \<Rightarrow> Str n)"

definition shared_rdsCluster :: "env \<Rightarrow> decl" where
  "shared_rdsCluster e =
     with_provider
       ((resource ''rdsCluster'' ''aws.rds.Cluster'' (project e @ ''-rds-cluster-'' @ stack e)
           [(''clusterIdentifierPrefix'', Str (project e @ ''-rds-cluster-'' @ stack e)),
            (''availabilityZones'', Arr [shared_firstAzName e]),
            (''dbSubnetGroupName'', Out ''rdsSubnetGroup'' [''name'']),
            (''vpcSecurityGroupIds'', Arr [Out ''rdsSecurityGroup'' [''id'']]),
            (''preferredMaintenanceWindow'', Str ''sun:00:00-sun:00:30''),
            (''preferredBackupWindow'', Str ''01:00-05:00''),
            (''backupRetentionPeriod'', Num 35),
            (''iamDatabaseAuthenticationEnabled'', Bool True),
            (''storageEncrypted'', Bool True),
            (''engine'', Str ''aurora-postgresql''),
            (''engineMode'', Str ''provisioned''),
            (''engineVersion'', Str ''16.1''),
            (''databaseName'', Str ''exampledb''),
            (''masterUsername'', Str ''example''),
            (''masterPassword'', Out ''rdsInstanceMasterPassword'' [''result'']),
            (''skipFinalSnapshot'', Bool True),
            (''serverlessv2ScalingConfiguration'',
               Obj [(''minCapacity'', Num (1 / 2)), (''maxCapacity'', Num 1)]),
            (''deletionProtection'', Bool (stack e = ''prod''))])
        \<lparr>ignoreChanges := [''availabilityZones'']\<rparr>)"

definition shared_rdsInstance :: "env \<Rightarrow> decl" where
  "shared_rdsInstance e =
     with_provider
       (resource ''rdsInstance'' ''aws.rds.ClusterInstance''
          (project e @ ''-rds-cluster-instance-'' @ stack e)
          [(''identifierPrefix'', Str (project e @ ''-rds-cluster-instance-'' @ stack e)),
           (''clusterIdentifier'', Out ''rdsCluster'' [''id'']),
           (''dbSubnetGroupName'', Out ''rdsSubnetGroup'' [''name'']),
           (''instanceClass'', Str ''db.serverless''),
           (''engine'', Out ''rdsCluster'' [''engine'']),
           (''engineVersion'', Out ''rdsCluster'' [''engineVersion'']),
           (''performanceInsightsEnabled'', Bool True),
           (''performanceInsightsRetentionPeriod'', Num 7),
           (''publiclyAccessible'', Bool True)])"

text \<open>The declarations in the order the program makes them, once both configuration
  values are there. The DKIM records come last: the callback that makes them runs
  after the body of the program.\<close>

definition shared_resources :: "env \<Rightarrow> string \<Rightarrow> string \<Rightarrow> decl list" where
  "shared_resources e region cfZoneId =
     [shared_awsMainStack, shared_provider e region, shared_cloudflareZone e cfZoneId,
      shared_sesDomainIdentity e, shared_sesDomainDkim e,
      shared_sesRecordVerificationRecord e, shared_sesDomainVerification e,
      shared_certificate e, shared_certificateValidation e,
      shared_certificateValidationRecord e, shared_vpc e,
      shared_loadBalancerSecurityGroup e, shared_loadBalancer e, shared_listener e,
      shared_ecsCluster e, shared_rdsSecurityGroup e, shared_rdsSubnetGroup e,
      shared_rdsInstanceMasterPassword e, shared_rdsCluster e, shared_rdsInstance e]
     @ shared_sesDomainDkimRecords e"

text \<open>A run of the program: a missing configuration value raises where it is read, and
  the declarations made before that stand. The result is the error, if any, and the
  declarations made.\<close>

definition shared_program :: "env \<Rightarrow> error option \<times> decl list" where
  "shared_program e =
     (case require ''aws'' (config e) ''region'' of
        Inl err \<Rightarrow> (Some err, [shared_awsMainStack])
      | Inr region \<Rightarrow>
          (case require ''shared'' (config e) ''cfZoneId'' of
             Inl err \<Rightarrow> (Some err, [shared_awsMainStack, shared_provider e region])
           | Inr cfZoneId \<Rightarrow> (None, shared_resources e region cfZoneId)))"

section \<open>The service project\<close>

definition api_awsMainStack :: decl where
  "api_awsMainStack =
     (resource ''awsMainStack'' ''pulumi.StackReference'' ''example/aws/prod'' [])
     \<lparr>kind := Get\<rparr>"

definition api_shared :: "env \<Rightarrow> decl" where
  "api_shared e =
     (resource ''shared'' ''pulumi.StackReference'' (''example/shared/'' @ stack e) [])
     \<lparr>kind := Get\<rparr>"

text \<open>\<^verbatim>\<open>shared.getOutput(k).apply((x) => x.m)\<close>: the member \<open>m\<close> of the shared stack's
  output \<open>k\<close>; reading a member of an output that is not there raises.\<close>

definition api_shared_member :: "env \<Rightarrow> string \<Rightarrow> string \<Rightarrow> pv" where
  "api_shared_member e k m =
     output_of ''shared''
       (case getOutput (shared e) k of
          None \<Rightarrow> Inl TypeError
        | Some _ \<Rightarrow> Inr (Out ''shared'' [k, m]))"

text \<open>\<^verbatim>\<open>awsMainStack.requireOutput("accounts").apply((accounts) => accounts[stack].id)\<close> and
  its twin for \<^verbatim>\<open>arn\<close>: each reads the output anew.\<close>

definition api_account_member :: "env \<Rightarrow> (Account \<Rightarrow> string) \<Rightarrow> error + pv" where
  "api_account_member e f =
     (case requireOutput (awsMainStack e) ''accounts'' of
        Inl err \<Rightarrow> Inl err
      | Inr accounts \<Rightarrow> js_member (js_index accounts (stack e)) f)"

definition api_provider :: "env \<Rightarrow> decl" where
  "api_provider e =
     resource ''provider'' ''aws.Provider'' ''scoped-provider''
       [(''region'', Str ''eu-west-2''),
        (''allowedAccountIds'',
           Arr [output_of ''awsMainStack'' (api_account_member e id')]),
        (''assumeRole'',
           Obj [(''roleArn'', output_of ''awsMainStack'' (api_account_member e arn))])]"

definition api_secrets :: "string \<Rightarrow> (string \<times> pv) list" where
  "api_secrets exampleSecret = [(''EXAMPLE_SECRET'', Secret (Str exampleSecret))]"

definition api_envs :: "(string \<times> string) list" where
  "api_envs = [(''NODE_ENV'', ''production'')]"

text \<open>\<^verbatim>\<open>createSecret\<close> declares one parameter and returns the pair the container reads.\<close>

definition api_createSecret :: "env \<Rightarrow> string \<times> pv \<Rightarrow> decl \<times> pv" where
  "api_createSecret e nv =
     (with_provider
        (resource (''secret('' @ fst nv @ '')'') ''aws.ssm.Parameter''
           (project e @ ''-'' @ toLocaleLowerCase (fst nv) @ ''-'' @ stack e)
           [(''type'', Str ''SecureString''), (''value'', snd nv)]),
      Obj [(''name'', Str (fst nv)),
           (''valueFrom'', Out (''secret('' @ fst nv @ '')'') [''arn''])])"

definition api_args :: pv where
  "api_args = Obj (map (\<lambda>env. (fst env, Str (snd env))) api_envs)"

definition api_secretAsArns :: "env \<Rightarrow> string \<Rightarrow> (decl \<times> pv) list" where
  "api_secretAsArns e exampleSecret = map (api_createSecret e) (api_secrets exampleSecret)"

definition api_targetGroup :: "env \<Rightarrow> decl" where
  "api_targetGroup e =
     with_provider
       (resource ''targetGroup'' ''aws.lb.TargetGroup'' (project e @ ''-tg-'' @ stack e)
          [(''vpcId'', api_shared_member e ''vpc'' ''vpcId''),
           (''targetType'', Str ''ip''),
           (''port'', Num 3000),
           (''protocol'', Str ''HTTP''),
           (''healthCheck'', Obj [(''path'', Str ''/healthcheck'')])])"

definition api_listenerRule :: "env \<Rightarrow> string \<Rightarrow> decl" where
  "api_listenerRule e domain =
     with_provider
       (resource ''listenerRule'' ''aws.lb.ListenerRule''
          (project e @ ''-listener-'' @ stack e)
          [(''listenerArn'', api_shared_member e ''listener'' ''arn''),
           (''actions'',
              Arr [Obj [(''type'', Str ''forward''),
                        (''targetGroupArn'', Out ''targetGroup'' [''arn''])]]),
           (''conditions'',
              Arr [Obj [(''hostHeader'', Obj [(''values'', Arr [Str domain])])]])])"

definition api_repository :: "env \<Rightarrow> decl" where
  "api_repository e =
     with_provider
       (resource ''repository'' ''awsx.ecr.Repository''
          (project e @ ''-repository-'' @ stack e)
          [(''forceDelete'', Bool True)])"

definition api_image :: "env \<Rightarrow> decl" where
  "api_image e =
     with_provider
       (resource ''image'' ''awsx.ecr.Image'' (project e @ ''-image-'' @ stack e)
          [(''repositoryUrl'', Out ''repository'' [''url'']),
           (''dockerfile'', Str ''Dockerfile.api''),
           (''context'', Str ''.''),
           (''platform'', Str ''linux/amd64''),
           (''args'', api_args)])"

definition api_executionRole :: "env \<Rightarrow> decl" where
  "api_executionRole e =
     with_provider
       (resource ''executionRole'' ''aws.iam.Role''
          (project e @ ''-task-execution-role-'' @ stack e)
          [(''assumeRolePolicy'',
              Call ''aws.iam.assumeRolePolicyForPrincipal''
                (Obj [(''Service'', Str ''ecs-tasks.amazonaws.com'')]))])"

definition api_ssmPolicyAttachment :: "env \<Rightarrow> decl" where
  "api_ssmPolicyAttachment e =
     with_provider
       (resource ''ssmPolicyAttachment'' ''aws.iam.RolePolicyAttachment''
          (project e @ ''-ssm-role-policy-attachment-'' @ stack e)
          [(''role'', Res ''executionRole''),
           (''policyArn'', Const ''aws.iam.ManagedPolicy.AmazonSSMReadOnlyAccess'')])"

definition api_taskExecutionPolicyAttachment :: "env \<Rightarrow> decl" where
  "api_taskExecutionPolicyAttachment e =
     with_provider
       (resource ''taskExecutionPolicyAttachment'' ''aws.iam.RolePolicyAttachment''
          (project e @ ''-ecs-role-policy-attachment-'' @ stack e)
          [(''role'', Res ''executionRole''),
           (''policyArn'',
              Const ''aws.iam.ManagedPolicy.AmazonECSTaskExecutionRolePolicy'')])"

definition api_securityGroup :: "env \<Rightarrow> decl" where
  "api_securityGroup e =
     with_provider
       (resource ''securityGroup'' ''aws.ec2.SecurityGroup'' (project e @ ''-sg-'' @ stack e)
          [(''vpcId'', api_shared_member e ''vpc'' ''vpcId''),
           (''egress'',
              Arr [Obj [(''fromPort'', Num 0), (''toPort'', Num 0), (''protocol'', Str ''-1''),
                        (''cidrBlocks'', Arr [Str ''0.0.0.0/0'']),
                        (''ipv6CidrBlocks'', Arr [Str ''::/0''])]]),
           (''ingress'',
              Arr [Obj [(''fromPort'', Num 0), (''toPort'', Num 0), (''protocol'', Str ''-1''),
                        (''cidrBlocks'', Arr [Str ''0.0.0.0/0'']),
                        (''ipv6CidrBlocks'', Arr [Str ''::/0''])]])])"

definition api_appService :: "env \<Rightarrow> string \<Rightarrow> decl" where
  "api_appService e exampleSecret =
     with_provider
       (resource ''appService'' ''awsx.ecs.FargateService''
          (project e @ ''-service-'' @ stack e)
          [(''cluster'', api_shared_member e ''ecsCluster'' ''arn''),
           (''networkConfiguration'',
              Obj [(''subnets'', api_shared_member e ''vpc'' ''privateSubnetIds''),
                   (''securityGroups'', Arr [Out ''securityGroup'' [''id'']])]),
           (''desiredCount'', Num 1),
           (''taskDefinitionArgs'',
              Obj [(''executionRole'', Obj [(''roleArn'', Out ''executionRole'' [''arn''])]),
                   (''runtimePlatform'', Obj [(''cpuArchitecture'', Str ''X86_64'')]),
                   (''container'',
                      Obj [(''healthCheck'',
                              Obj [(''command'',
                                      Arr [Str ''CMD-SHELL'',
                                           Str ''curl -f http://localhost:3000/healthcheck || exit 1''])]),
                           (''environment'',
                              Arr (map (\<lambda>env. Obj [(''name'', Str (fst env)),
                                                       (''value'', Str (snd env))]) api_envs)),
                           (''secrets'', Arr (map snd (api_secretAsArns e exampleSecret))),
                           (''name'', Str (project e @ ''-'' @ stack e @ ''-api'')),
                           (''image'', Out ''image'' [''imageUri'']),
                           (''cpu'', Num 128),
                           (''memory'', Num 512),
                           (''essential'', Bool True),
                           (''portMappings'',
                              Arr [Obj [(''hostPort'', Num 3000),
                                        (''containerPort'', Num 3000),
                                        (''targetGroup'', Res ''targetGroup'')]])])])])"

definition api_appDomainRecord :: "env \<Rightarrow> decl" where
  "api_appDomainRecord e =
     resource ''appDomainRecord'' ''cf.Record'' (project e @ ''-'' @ stack e @ ''-api-domain-record'')
       [(''name'', Str ''api''),
        (''zoneId'', api_shared_member e ''cloudflareZone'' ''id''),
        (''type'', Str ''CNAME''),
        (''value'', api_shared_member e ''loadBalancer'' ''dnsName''),
        (''ttl'', Num 1),
        (''proxied'', Bool True)]"

definition api_resources :: "env \<Rightarrow> string \<Rightarrow> string \<Rightarrow> decl list" where
  "api_resources e domain exampleSecret =
     [api_awsMainStack, api_shared e, api_provider e]
     @ map fst (api_secretAsArns e exampleSecret) @
     [api_targetGroup e, api_listenerRule e domain, api_repository e, api_image e,
      api_executionRole e, api_ssmPolicyAttachment e, api_taskExecutionPolicyAttachment e,
      api_securityGroup e, api_appService e exampleSecret, api_appDomainRecord e]"

definition api_program :: "env \<Rightarrow> error option \<times> decl list" where
  "api_program e =
     (case require ''api'' (config e) ''domain'' of
        Inl err \<Rightarrow> (Some err, [api_awsMainStack, api_shared e, api_provider e])
      | Inr domain \<Rightarrow>
          (case require ''api'' (config e) ''EXAMPLE_SECRET'' of
             Inl err \<Rightarrow> (Some err, [api_awsMainStack, api_shared e, api_provider e])
           | Inr exampleSecret \<Rightarrow> (None, api_resources e domain exampleSecret)))"

section \<open>The provisioning engine\<close>

text \<open>
  The engine is not part of the repository; the programs only hand it the declarations.
  What is assumed of it is the ordering it documents: it may carry out the declared
  operations in any order in which every operation comes after the operations it
  depends on, and it never carries out an operation one of whose arguments is a
  rejected output. A run is the list of the operations carried out so far, oldest first,
  each named by the constant it is bound to.
\<close>

definition creatable :: "decl list \<Rightarrow> string list \<Rightarrow> string \<Rightarrow> bool" where
  "creatable prog done v =
     (case find (\<lambda>d. var d = v) prog of
        None \<Rightarrow> False
      | Some d \<Rightarrow> v \<notin> set done \<and> \<not> rejected d \<and> set (deps d) \<subseteq> set done)"

fun runs_from :: "decl list \<Rightarrow> string list \<Rightarrow> string list \<Rightarrow> bool" where
  "runs_from prog done [] = True"
| "runs_from prog done (v # vs) = (creatable prog done v \<and> runs_from prog (v # done) vs)"

definition run :: "decl list \<Rightarrow> string list \<Rightarrow> bool" where
  "run prog vs = runs_from prog [] vs"

text \<open>
  On a later run the engine compares each declaration with the one it deployed last
  under the same name: a resource it does not know is created, one whose arguments
  are the same is left as it is, and one whose arguments differ is updated.
\<close>

datatype step = Create | Same | Update

definition plan :: "(string \<rightharpoonup> decl) \<Rightarrow> decl \<Rightarrow> step" where
  "plan deployed d =
     (case deployed (var d) of
        None \<Rightarrow> Create
      | Some d' \<Rightarrow> if args d' = args d then Same else Update)"

definition deploy :: "(string \<rightharpoonup> decl) \<Rightarrow> decl list \<Rightarrow> (string \<rightharpoonup> decl)" where
  "deploy deployed prog = fold (\<lambda>d st. st(var d \<mapsto> d)) prog deployed"

text \<open>The resources a run has created, as opposed to the existing ones it has read.\<close>

definition created :: "decl list \<Rightarrow> string list \<Rightarrow> decl list" where
  "created prog vs = filter (\<lambda>d. kind d = New \<and> var d \<in> set vs) prog"

text \<open>The resource types of the two cloud provider libraries, \<^verbatim>\<open>@pulumi/aws\<close> and
  \<^verbatim>\<open>@pulumi/awsx\<close>.\<close>

definition aws_type :: "string \<Rightarrow> bool" where
  "aws_type t = (take 4 t = ''aws.'' \<or> take 5 t = ''awsx.'')"

section \<open>Basic facts\<close>

declare show_nat.simps [simp del]

lemma provider_in_deps: "opt_provider d = Some p \<Longrightarrow> p \<in> set (deps d)"
  by (simp add: deps_def)

lemma js_member_Own: "js_member (Own a) f = Inr (Str (f a))"
  by (simp add: js_member_def)

lemma js_index_own: "obj k = Some a \<Longrightarrow> js_index obj k = Own a"
  by (simp add: js_index_def)

lemma js_index_missing:
  "obj k = None \<Longrightarrow> k \<notin> set object_prototype \<Longrightarrow> js_index obj k = Missing"
  by (simp add: js_index_def)

lemma shared_awsMainStack_fields [simp]:
  "var shared_awsMainStack = ''awsMainStack''"
  "kind shared_awsMainStack = Get"
  "rtype shared_awsMainStack = ''pulumi.StackReference''"
  "opt_provider shared_awsMainStack = None"
  by (simp_all add: shared_awsMainStack_def with_provider_def resource_def)

lemma shared_provider_fields [simp]:
  "var (shared_provider e region) = ''provider''"
  "kind (shared_provider e region) = New"
  "rtype (shared_provider e region) = ''aws.Provider''"
  "opt_provider (shared_provider e region) = None"
  by (simp_all add: shared_provider_def with_provider_def resource_def)

lemma shared_cloudflareZone_fields [simp]:
  "var (shared_cloudflareZone e cfZoneId) = ''cloudflareZone''"
  "kind (shared_cloudflareZone e cfZoneId) = Get"
  "rtype (shared_cloudflareZone e cfZoneId) = ''cf.Zone''"
  "opt_provider (shared_cloudflareZone e cfZoneId) = None"
  by (simp_all add: shared_cloudflareZone_def with_provider_def resource_def)

lemma shared_sesDomainIdentity_fields [simp]:
  "var (shared_sesDomainIdentity e) = ''sesDomainIdentity''"
  "kind (shared_sesDomainIdentity e) = New"
  "rtype (shared_sesDomainIdentity e) = ''aws.ses.DomainIdentity''"
  "opt_provider (shared_sesDomainIdentity e) = Some ''provider''"
  by (simp_all add: shared_sesDomainIdentity_def with_provider_def resource_def)

lemma shared_sesDomainDkim_fields [simp]:
  "var (shared_sesDomainDkim e) = ''sesDomainDkim''"
  "kind (shared_sesDomainDkim e) = New"
  "rtype (shared_sesDomainDkim e) = ''aws.ses.DomainDkim''"
  "opt_provider (shared_sesDomainDkim e) = Some ''provider''"
  by (simp_all add: shared_sesDomainDkim_def with_provider_def resource_def)

lemma shared_sesDomainDkimRecord_fields [simp]:
  "kind (shared_sesDomainDkimRecord e token index) = New"
  "rtype (shared_sesDomainDkimRecord e token index) = ''cf.Record''"
  "opt_provider (shared_sesDomainDkimRecord e token index) = None"
  by (simp_all add: shared_sesDomainDkimRecord_def with_provider_def resource_def)

lemma shared_sesRecordVerificationRecord_fields [simp]:
  "var (shared_sesRecordVerificationRecord e) = ''sesRecordVerificationRecord''"
  "kind (shared_sesRecordVerificationRecord e) = New"
  "rtype (shared_sesRecordVerificationRecord e) = ''cf.Record''"
  "opt_provider (shared_sesRecordVerificationRecord e) = None"
  by (simp_all add: shared_sesRecordVerificationRecord_def with_provider_def resource_def)

lemma shared_sesDomainVerification_fields [simp]:
  "var (shared_sesDomainVerification e) = ''sesDomainVerification''"
  "kind (shared_sesDomainVerification e) = New"
  "rtype (shared_sesDomainVerification e) = ''aws.ses.DomainIdentityVerification''"
  "opt_provider (shared_sesDomainVerification e) = Some ''provider''"
  by (simp_all add: shared_sesDomainVerification_def with_provider_def resource_def)

lemma shared_certificate_fields [simp]:
  "var (shared_certificate e) = ''certificate''"
  "kind (shared_certificate e) = New"
  "rtype (shared_certificate e) = ''aws.acm.Certificate''"
  "opt_provider (shared_certificate e) = Some ''provider''"
  by (simp_all add: shared_certificate_def with_provider_def resource_def)

lemma shared_certificateValidation_fields [simp]:
  "var (shared_certificateValidation e) = ''certificateValidation''"
  "kind (shared_certificateValidation e) = New"
  "rtype (shared_certificateValidation e) = ''aws.acm.CertificateValidation''"
  "opt_provider (shared_certificateValidation e) = Some ''provider''"
  by (simp_all add: shared_certificateValidation_def with_provider_def resource_def)

lemma shared_certificateValidationRecord_fields [simp]:
  "var (shared_certificateValidationRecord e) = ''certificateValidationRecord''"
  "kind (shared_certificateValidationRecord e) = New"
  "rtype (shared_certificateValidationRecord e) = ''cf.Record''"
  "opt_provider (shared_certificateValidationRecord e) = None"
  by (simp_all add: shared_certificateValidationRecord_def with_provider_def resource_def)

lemma shared_vpc_fields [simp]:
  "var (shared_vpc e) = ''vpc''"
  "kind (shared_vpc e) = New"
  "rtype (shared_vpc e) = ''awsx.ec2.Vpc''"
  "opt_provider (shared_vpc e) = Some ''provider''"
  by (simp_all add: shared_vpc_def with_provider_def resource_def)

lemma shared_loadBalancerSecurityGroup_fields [simp]:
  "var (shared_loadBalancerSecurityGroup e) = ''loadBalancerSecurityGroup''"
  "kind (shared_loadBalancerSecurityGroup e) = New"
  "rtype (shared_loadBalancerSecurityGroup e) = ''aws.ec2.SecurityGroup''"
  "opt_provider (shared_loadBalancerSecurityGroup e) = Some ''provider''"
  by (simp_all add: shared_loadBalancerSecurityGroup_def with_provider_def resource_def)

lemma shared_loadBalancer_fields [simp]:
  "var (shared_loadBalancer e) = ''loadBalancer''"
  "kind (shared_loadBalancer e) = New"
  "rtype (shared_loadBalancer e) = ''aws.lb.LoadBalancer''"
  "opt_provider (shared_loadBalancer e) = Some ''provider''"
  by (simp_all add: shared_loadBalancer_def with_provider_def resource_def)

lemma shared_listener_fields [simp]:
  "var (shared_listener e) = ''listener''"
  "kind (shared_listener e) = New"
  "rtype (shared_listener e) = ''aws.lb.Listener''"
  "opt_provider (shared_listener e) = Some ''provider''"
  by (simp_all add: shared_listener_def with_provider_def resource_def)

lemma shared_ecsCluster_fields [simp]:
  "var (shared_ecsCluster e) = ''ecsCluster''"
  "kind (shared_ecsCluster e) = New"
  "rtype (shared_ecsCluster e) = ''aws.ecs.Cluster''"
  "opt_provider (shared_ecsCluster e) = Some ''provider''"
  by (simp_all add: shared_ecsCluster_def with_provider_def resource_def)

lemma shared_rdsSecurityGroup_fields [simp]:
  "var (shared_rdsSecurityGroup e) = ''rdsSecurityGroup''"
  "kind (shared_rdsSecurityGroup e) = New"
  "rtype (shared_rdsSecurityGroup e) = ''aws.ec2.SecurityGroup''"
  "opt_provider (shared_rdsSecurityGroup e) = Some ''provider''"
  by (simp_all add: shared_rdsSecurityGroup_def with_provider_def resource_def)

lemma shared_rdsSubnetGroup_fields [simp]:
  "var (shared_rdsSubnetGroup e) = ''rdsSubnetGroup''"
  "kind (shared_rdsSubnetGroup e) = New"
  "rtype (shared_rdsSubnetGroup e) = ''aws.rds.SubnetGroup''"
  "opt_provider (shared_rdsSubnetGroup e) = Some ''provider''"
  by (simp_all add: shared_rdsSubnetGroup_def with_provider_def resource_def)

lemma shared_rdsInstanceMasterPassword_fields [simp]:
  "var (shared_rdsInstanceMasterPassword e) = ''rdsInstanceMasterPassword''"
  "kind (shared_rdsInstanceMasterPassword e) = New"
  "rtype (shared_rdsInstanceMasterPassword e) = ''RandomPassword''"
  "opt_provider (shared_rdsInstanceMasterPassword e) = None"
  by (simp_all add: shared_rdsInstanceMasterPassword_def with_provider_def resource_def)

lemma shared_rdsCluster_fields [simp]:
  "var (shared_rdsCluster e) = ''rdsCluster''"
  "kind (shared_rdsCluster e) = New"
  "rtype (shared_rdsCluster e) = ''aws.rds.Cluster''"
  "opt_provider (shared_rdsCluster e) = Some ''provider''"
  by (simp_all add: shared_rdsCluster_def with_provider_def resource_def)

lemma shared_rdsInstance_fields [simp]:
  "var (shared_rdsInstance e) = ''rdsInstance''"
  "kind (shared_rdsInstance e) = New"
  "rtype (shared_rdsInstance e) = ''aws.rds.ClusterInstance''"
  "opt_provider (shared_rdsInstance e) = Some ''provider''"
  by (simp_all add: shared_rdsInstance_def with_provider_def resource_def)

lemma api_awsMainStack_fields [simp]:
  "var api_awsMainStack = ''awsMainStack''"
  "kind api_awsMainStack = Get"
  "rtype api_awsMainStack = ''pulumi.StackReference''"
  "opt_provider api_awsMainStack = None"
  by (simp_all add: api_awsMainStack_def with_provider_def resource_def)

lemma api_shared_fields [simp]:
  "var (api_shared e) = ''shared''"
  "kind (api_shared e) = Get"
  "rtype (api_shared e) = ''pulumi.StackReference''"
  "opt_provider (api_shared e) = None"
  by (simp_all add: api_shared_def with_provider_def resource_def)

lemma api_provider_fields [simp]:
  "var (api_provider e) = ''provider''"
  "kind (api_provider e) = New"
  "rtype (api_provider e) = ''aws.Provider''"
  "opt_provider (api_provider e) = None"
  by (simp_all add: api_provider_def with_provider_def resource_def)

lemma api_targetGroup_fields [simp]:
  "var (api_targetGroup e) = ''targetGroup''"
  "kind (api_targetGroup e) = New"
  "rtype (api_targetGroup e) = ''aws.lb.TargetGroup''"
  "opt_provider (api_targetGroup e) = Some ''provider''"
  by (simp_all add: api_targetGroup_def with_provider_def resource_def)

lemma api_listenerRule_fields [simp]:
  "var (api_listenerRule e domain) = ''listenerRule''"
  "kind (api_listenerRule e domain) = New"
  "rtype (api_listenerRule e domain) = ''aws.lb.ListenerRule''"
  "opt_provider (api_listenerRule e domain) = Some ''provider''"
  by (simp_all add: api_listenerRule_def with_provider_def resource_def)

lemma api_repository_fields [simp]:
  "var (api_repository e) = ''repository''"
  "kind (api_repository e) = New"
  "rtype (api_repository e) = ''awsx.ecr.Repository''"
  "opt_provider (api_repository e) = Some ''provider''"
  by (simp_all add: api_repository_def with_provider_def resource_def)

lemma api_image_fields [simp]:
  "var (api_image e) = ''image''"
  "kind (api_image e) = New"
  "rtype (api_image e) = ''awsx.ecr.Image''"
  "opt_provider (api_image e) = Some ''provider''"
  by (simp_all add: api_image_def with_provider_def resource_def)

lemma api_executionRole_fields [simp]:
  "var (api_executionRole e) = ''executionRole''"
  "kind (api_executionRole e) = New"
  "rtype (api_executionRole e) = ''aws.iam.Role''"
  "opt_provider (api_executionRole e) = Some ''provider''"
  by (simp_all add: api_executionRole_def with_provider_def resource_def)

lemma api_ssmPolicyAttachment_fields [simp]:
  "var (api_ssmPolicyAttachment e) = ''ssmPolicyAttachment''"
  "kind (api_ssmPolicyAttachment e) = New"
  "rtype (api_ssmPolicyAttachment e) = ''aws.iam.RolePolicyAttachment''"
  "opt_provider (api_ssmPolicyAttachment e) = Some ''provider''"
  by (simp_all add: api_ssmPolicyAttachment_def with_provider_def resource_def)

lemma api_taskExecutionPolicyAttachment_fields [simp]:
  "var (api_taskExecutionPolicyAttachment e) = ''taskExecutionPolicyAttachment''"
  "kind (api_taskExecutionPolicyAttachment e) = New"
  "rtype (api_taskExecutionPolicyAttachment e) = ''aws.iam.RolePolicyAttachment''"
  "opt_provider (api_taskExecutionPolicyAttachment e) = Some ''provider''"
  by (simp_all add: api_taskExecutionPolicyAttachment_def with_provider_def resource_def)

lemma api_securityGroup_fields [simp]:
  "var (api_securityGroup e) = ''securityGroup''"
  "kind (api_securityGroup e) = New"
  "rtype (api_securityGroup e) = ''aws.ec2.SecurityGroup''"
  "opt_provider (api_securityGroup e) = Some ''provider''"
  by (simp_all add: api_securityGroup_def with_provider_def resource_def)

lemma api_appService_fields [simp]:
  "var (api_appService e exampleSecret) = ''appService''"
  "kind (api_appService e exampleSecret) = New"
  "rtype (api_appService e exampleSecret) = ''awsx.ecs.FargateService''"
  "opt_provider (api_appService e exampleSecret) = Some ''provider''"
  by (simp_all add: api_appService_def with_provider_def resource_def)

lemma api_appDomainRecord_fields [simp]:
  "var (api_appDomainRecord e) = ''appDomainRecord''"
  "kind (api_appDomainRecord e) = New"
  "rtype (api_appDomainRecord e) = ''cf.Record''"
  "opt_provider (api_appDomainRecord e) = None"
  by (simp_all add: api_appDomainRecord_def with_provider_def resource_def)
section \<open>What each declaration of the shared project waits for\<close>

lemma shared_awsMainStack_deps:
  "deps shared_awsMainStack = []"
  "\<not> rejected shared_awsMainStack"
  by (simp_all add: shared_awsMainStack_def with_provider_def resource_def deps_def rejected_def)

lemma shared_cloudflareZone_deps:
  "deps (shared_cloudflareZone e cfZoneId) = []"
  "\<not> rejected (shared_cloudflareZone e cfZoneId)"
  by (simp_all add: shared_cloudflareZone_def with_provider_def resource_def deps_def rejected_def)

lemma shared_sesDomainIdentity_deps:
  "deps (shared_sesDomainIdentity e) = [''cloudflareZone'', ''provider'']"
  "\<not> rejected (shared_sesDomainIdentity e)"
  by (simp_all add: shared_sesDomainIdentity_def with_provider_def resource_def deps_def rejected_def)

lemma shared_sesDomainDkim_deps:
  "deps (shared_sesDomainDkim e) = [''sesDomainIdentity'', ''provider'']"
  "\<not> rejected (shared_sesDomainDkim e)"
  by (simp_all add: shared_sesDomainDkim_def with_provider_def resource_def deps_def rejected_def)

lemma shared_sesDomainDkimRecord_deps:
  "deps (shared_sesDomainDkimRecord e token index) = [''cloudflareZone'', ''sesDomainDkim'']"
  "\<not> rejected (shared_sesDomainDkimRecord e token index)"
  by (simp_all add: shared_sesDomainDkimRecord_def with_provider_def resource_def deps_def rejected_def)

lemma shared_sesRecordVerificationRecord_deps:
  "deps (shared_sesRecordVerificationRecord e) = [''sesDomainIdentity'', ''cloudflareZone'', ''sesDomainIdentity'']"
  "\<not> rejected (shared_sesRecordVerificationRecord e)"
  by (simp_all add: shared_sesRecordVerificationRecord_def with_provider_def resource_def deps_def rejected_def)

lemma shared_sesDomainVerification_deps:
  "deps (shared_sesDomainVerification e) = [''sesDomainIdentity'', ''sesRecordVerificationRecord'', ''provider'']"
  "\<not> rejected (shared_sesDomainVerification e)"
  by (simp_all add: shared_sesDomainVerification_def with_provider_def resource_def deps_def rejected_def)

lemma shared_certificate_deps:
  "deps (shared_certificate e) = [''cloudflareZone'', ''provider'']"
  "\<not> rejected (shared_certificate e)"
  by (simp_all add: shared_certificate_def with_provider_def resource_def deps_def rejected_def)

lemma shared_certificateValidation_deps:
  "deps (shared_certificateValidation e) = [''certificate'', ''provider'']"
  "\<not> rejected (shared_certificateValidation e)"
  by (simp_all add: shared_certificateValidation_def with_provider_def resource_def deps_def rejected_def)

lemma shared_certificateValidationRecord_deps:
  "deps (shared_certificateValidationRecord e) = [''certificate'', ''cloudflareZone'', ''certificate'', ''certificate'']"
  "\<not> rejected (shared_certificateValidationRecord e)"
  by (simp_all add: shared_certificateValidationRecord_def with_provider_def resource_def deps_def rejected_def)

lemma shared_vpc_deps:
  "deps (shared_vpc e) = [''provider'']"
  "\<not> rejected (shared_vpc e)"
  by (simp_all add: shared_vpc_def with_provider_def resource_def deps_def rejected_def)

lemma shared_loadBalancerSecurityGroup_deps:
  "deps (shared_loadBalancerSecurityGroup e) = [''vpc'', ''provider'']"
  "\<not> rejected (shared_loadBalancerSecurityGroup e)"
  by (simp_all add: shared_loadBalancerSecurityGroup_def with_provider_def resource_def deps_def rejected_def)

lemma shared_loadBalancer_deps:
  "deps (shared_loadBalancer e) = [''loadBalancerSecurityGroup'', ''vpc'', ''provider'']"
  "\<not> rejected (shared_loadBalancer e)"
  by (simp_all add: shared_loadBalancer_def with_provider_def resource_def deps_def rejected_def)

lemma shared_listener_deps:
  "deps (shared_listener e) = [''loadBalancer'', ''certificate'', ''provider'']"
  "\<not> rejected (shared_listener e)"
  by (simp_all add: shared_listener_def with_provider_def resource_def deps_def rejected_def)

lemma shared_ecsCluster_deps:
  "deps (shared_ecsCluster e) = [''provider'']"
  "\<not> rejected (shared_ecsCluster e)"
  by (simp_all add: shared_ecsCluster_def with_provider_def resource_def deps_def rejected_def)

lemma shared_rdsSecurityGroup_deps:
  "deps (shared_rdsSecurityGroup e) = [''vpc'', ''provider'']"
  "\<not> rejected (shared_rdsSecurityGroup e)"
  by (simp_all add: shared_rdsSecurityGroup_def with_provider_def resource_def deps_def rejected_def)

lemma shared_rdsSubnetGroup_deps:
  "deps (shared_rdsSubnetGroup e) = [''vpc'', ''provider'']"
  "\<not> rejected (shared_rdsSubnetGroup e)"
  by (simp_all add: shared_rdsSubnetGroup_def with_provider_def resource_def deps_def rejected_def)

lemma shared_rdsInstanceMasterPassword_deps:
  "deps (shared_rdsInstanceMasterPassword e) = []"
  "\<not> rejected (shared_rdsInstanceMasterPassword e)"
  by (simp_all add: shared_rdsInstanceMasterPassword_def with_provider_def resource_def deps_def rejected_def)

lemma shared_rdsCluster_deps:
  "deps (shared_rdsCluster e) = [''rdsSubnetGroup'', ''rdsSecurityGroup'', ''rdsInstanceMasterPassword'', ''provider'']"
  "\<not> rejected (shared_rdsCluster e)"
  by (simp_all add: shared_rdsCluster_def with_provider_def resource_def deps_def rejected_def shared_firstAzName_def split: list.splits)

lemma shared_rdsInstance_deps:
  "deps (shared_rdsInstance e) = [''rdsCluster'', ''rdsSubnetGroup'', ''rdsCluster'', ''rdsCluster'', ''provider'']"
  "\<not> rejected (shared_rdsInstance e)"
  by (simp_all add: shared_rdsInstance_def with_provider_def resource_def deps_def rejected_def)

lemmas shared_deps =
  shared_awsMainStack_deps shared_cloudflareZone_deps shared_sesDomainIdentity_deps
  shared_sesDomainDkim_deps shared_sesRecordVerificationRecord_deps
  shared_sesDomainVerification_deps shared_certificate_deps
  shared_certificateValidation_deps shared_certificateValidationRecord_deps
  shared_vpc_deps shared_loadBalancerSecurityGroup_deps shared_loadBalancer_deps
  shared_listener_deps shared_ecsCluster_deps shared_rdsSecurityGroup_deps
  shared_rdsSubnetGroup_deps shared_rdsInstanceMasterPassword_deps shared_rdsCluster_deps
  shared_rdsInstance_deps

section \<open>Finding a declaration by the constant it is bound to\<close>

lemma shared_resources_find:
  "find (\<lambda>d. var d = ''awsMainStack'') (shared_resources e region cfZoneId) = Some shared_awsMainStack"
  "find (\<lambda>d. var d = ''provider'') (shared_resources e region cfZoneId) = Some (shared_provider e region)"
  "find (\<lambda>d. var d = ''cloudflareZone'') (shared_resources e region cfZoneId) = Some (shared_cloudflareZone e cfZoneId)"
  "find (\<lambda>d. var d = ''sesDomainIdentity'') (shared_resources e region cfZoneId) = Some (shared_sesDomainIdentity e)"
  "find (\<lambda>d. var d = ''sesDomainDkim'') (shared_resources e region cfZoneId) = Some (shared_sesDomainDkim e)"
  "find (\<lambda>d. var d = ''sesRecordVerificationRecord'') (shared_resources e region cfZoneId) = Some (shared_sesRecordVerificationRecord e)"
  "find (\<lambda>d. var d = ''sesDomainVerification'') (shared_resources e region cfZoneId) = Some (shared_sesDomainVerification e)"
  "find (\<lambda>d. var d = ''certificate'') (shared_resources e region cfZoneId) = Some (shared_certificate e)"
  "find (\<lambda>d. var d = ''certificateValidation'') (shared_resources e region cfZoneId) = Some (shared_certificateValidation e)"
  "find (\<lambda>d. var d = ''certificateValidationRecord'') (shared_resources e region cfZoneId) = Some (shared_certificateValidationRecord e)"
  "find (\<lambda>d. var d = ''vpc'') (shared_resources e region cfZoneId) = Some (shared_vpc e)"
  "find (\<lambda>d. var d = ''loadBalancerSecurityGroup'') (shared_resources e region cfZoneId) = Some (shared_loadBalancerSecurityGroup e)"
  "find (\<lambda>d. var d = ''loadBalancer'') (shared_resources e region cfZoneId) = Some (shared_loadBalancer e)"
  "find (\<lambda>d. var d = ''listener'') (shared_resources e region cfZoneId) = Some (shared_listener e)"
  "find (\<lambda>d. var d = ''ecsCluster'') (shared_resources e region cfZoneId) = Some (shared_ecsCluster e)"
  "find (\<lambda>d. var d = ''rdsSecurityGroup'') (shared_resources e region cfZoneId) = Some (shared_rdsSecurityGroup e)"
  "find (\<lambda>d. var d = ''rdsSubnetGroup'') (shared_resources e region cfZoneId) = Some (shared_rdsSubnetGroup e)"
  "find (\<lambda>d. var d = ''rdsInstanceMasterPassword'') (shared_resources e region cfZoneId) = Some (shared_rdsInstanceMasterPassword e)"
  "find (\<lambda>d. var d = ''rdsCluster'') (shared_resources e region cfZoneId) = Some (shared_rdsCluster e)"
  "find (\<lambda>d. var d = ''rdsInstance'') (shared_resources e region cfZoneId) = Some (shared_rdsInstance e)"
  by (simp_all add: shared_resources_def)

lemma shared_program_configured:
  assumes "config e ''aws:region'' = Some region"
    and "config e ''shared:cfZoneId'' = Some cfZoneId"
  shows "shared_program e = (None, shared_resources e region cfZoneId)"
  using assms by (simp add: shared_program_def require_def)

lemma shared_provider_deps:
  assumes "shared_account_member e id' = Inr (Str i)"
    and "shared_account_member e arn = Inr (Str a)"
  shows "deps (shared_provider e region) = [''awsMainStack'', ''awsMainStack'']"
    and "\<not> rejected (shared_provider e region)"
  using assms
  by (simp_all add: shared_provider_def resource_def deps_def rejected_def output_of_def)


lemma api_createSecret_fields [simp]:
  "var (fst (api_createSecret e nv)) = ''secret('' @ fst nv @ '')''"
  "kind (fst (api_createSecret e nv)) = New"
  "rtype (fst (api_createSecret e nv)) = ''aws.ssm.Parameter''"
  "opt_provider (fst (api_createSecret e nv)) = Some ''provider''"
  by (simp_all add: api_createSecret_def with_provider_def resource_def)

section \<open>Runs of the engine\<close>

lemma creatableD:
  "creatable prog done v \<Longrightarrow>
     \<exists>d \<in> set prog. var d = v \<and> \<not> rejected d \<and> set (deps d) \<subseteq> set done"
  by (auto simp: creatable_def find_Some_iff split: option.splits)

text \<open>A set of operations each of which is rejected or waits for another of the set is
  never entered.\<close>

lemma runs_from_blocked:
  assumes B: "\<And>d. d \<in> set prog \<Longrightarrow> var d \<in> B \<Longrightarrow>
                rejected d \<or> (\<exists>q \<in> set (deps d). q \<in> B)"
  shows "runs_from prog done vs \<Longrightarrow> set done \<inter> B = {} \<Longrightarrow> set vs \<inter> B = {}"
proof (induction vs arbitrary: "done")
  case Nil
  then show ?case by simp
next
  case (Cons v vs)
  from Cons.prems(1) have c: "creatable prog done v" and r: "runs_from prog (v # done) vs"
    by simp_all
  from creatableD [OF c] obtain d where d: "d \<in> set prog" "var d = v" "\<not> rejected d"
    "set (deps d) \<subseteq> set done" by blast
  have "v \<notin> B"
  proof
    assume "v \<in> B"
    with B [OF d(1)] d(2,3) obtain q where "q \<in> set (deps d)" "q \<in> B" by blast
    with d(4) Cons.prems(2) show False by blast
  qed
  with Cons.prems(2) have "set (v # done) \<inter> B = {}" by simp
  from Cons.IH [OF r this] \<open>v \<notin> B\<close> show ?case by simp
qed

lemma run_blocked:
  assumes "\<And>d. d \<in> set prog \<Longrightarrow> var d \<in> B \<Longrightarrow>
             rejected d \<or> (\<exists>q \<in> set (deps d). q \<in> B)"
    and "run prog vs"
  shows "set vs \<inter> B = {}"
  using runs_from_blocked [of prog B "[]" vs] assms by (simp add: run_def)

lemma runs_from_append:
  "runs_from prog done (xs @ ys) =
     (runs_from prog done xs \<and> runs_from prog (rev xs @ done) ys)"
  by (induction xs arbitrary: "done") auto

section \<open>The scoped provider\<close>

lemma shared_account_member_own:
  assumes "getOutput (awsMainStack e) ''accounts'' = Some accounts"
    and "accounts (stack e) = Some a"
  shows "shared_account_member e f = Inr (Str (f a))"
  using assms by (simp add: shared_account_member_def shared_accounts_def js_index_own js_member_Own)

lemma api_account_member_own:
  assumes "getOutput (awsMainStack e) ''accounts'' = Some accounts"
    and "accounts (stack e) = Some a"
  shows "api_account_member e f = Inr (Str (f a))"
  using assms
  by (simp add: api_account_member_def requireOutput_def getOutput_def js_index_own js_member_Own)

lemma shared_provider_declared:
  "config e ''aws:region'' = Some region \<Longrightarrow>
     shared_provider e region \<in> set (snd (shared_program e))"
  by (simp add: shared_program_def require_def shared_resources_def split: option.splits)

lemma api_provider_declared: "api_provider e \<in> set (snd (api_program e))"
  by (simp add: api_program_def api_resources_def split: sum.splits)

text \<open>
  C1. Whatever the stack name, when the accounts mapping read from the account project
  has a record for it, the provider each project declares has that record's identifier
  as the single element of its allowed-account list and that record's role ARN as the
  ARN of the role it assumes. The shared project declares its provider once its region
  is configured; the service project's region is fixed.
\<close>

theorem scoped_provider_of_account_record:
  assumes "getOutput (awsMainStack e) ''accounts'' = Some accounts"
    and "accounts (stack e) = Some a"
    and "config e ''aws:region'' = Some region"
  shows "shared_provider e region \<in> set (snd (shared_program e)) \<and>
         args (shared_provider e region) =
           [(''region'', Str region),
            (''allowedAccountIds'', Arr [From ''awsMainStack'' (Str (id' a))]),
            (''assumeRole'', Obj [(''roleArn'', From ''awsMainStack'' (Str (arn a)))])] \<and>
         api_provider e \<in> set (snd (api_program e)) \<and>
         args (api_provider e) =
           [(''region'', Str ''eu-west-2''),
            (''allowedAccountIds'', Arr [From ''awsMainStack'' (Str (id' a))]),
            (''assumeRole'', Obj [(''roleArn'', From ''awsMainStack'' (Str (arn a)))])]"
proof -
  have "shared_account_member e id' = Inr (Str (id' a))"
    and "shared_account_member e arn = Inr (Str (arn a))"
    using assms(1,2) by (rule shared_account_member_own)+
  then have s: "args (shared_provider e region) =
           [(''region'', Str region),
            (''allowedAccountIds'', Arr [From ''awsMainStack'' (Str (id' a))]),
            (''assumeRole'', Obj [(''roleArn'', From ''awsMainStack'' (Str (arn a)))])]"
    by (simp add: shared_provider_def resource_def output_of_def)
  have "api_account_member e id' = Inr (Str (id' a))"
    and "api_account_member e arn = Inr (Str (arn a))"
    using assms(1,2) by (rule api_account_member_own)+
  then have a: "args (api_provider e) =
           [(''region'', Str ''eu-west-2''),
            (''allowedAccountIds'', Arr [From ''awsMainStack'' (Str (id' a))]),
            (''assumeRole'', Obj [(''roleArn'', From ''awsMainStack'' (Str (arn a)))])]"
    by (simp add: api_provider_def resource_def output_of_def)
  from s a shared_provider_declared [OF assms(3)] api_provider_declared show ?thesis
    by simp
qed

theorem scoped_provider_of_account_record_witness:
  "args (shared_provider
           \<lparr>project = ''shared'', stack = ''dev'',
            config = [''aws:region'' \<mapsto> ''eu-west-2''],
            awsMainStack = [''accounts'' \<mapsto> [''dev'' \<mapsto> \<lparr>id' = ''111'', arn = ''role-dev''\<rparr>]],
            shared = Map.empty, dkimTokens = [], azNames = []\<rparr> ''eu-west-2'') =
     [(''region'', Str ''eu-west-2''),
      (''allowedAccountIds'', Arr [From ''awsMainStack'' (Str ''111'')]),
      (''assumeRole'', Obj [(''roleArn'', From ''awsMainStack'' (Str ''role-dev''))])]"
  using scoped_provider_of_account_record
    [of "\<lparr>project = ''shared'', stack = ''dev'',
            config = [''aws:region'' \<mapsto> ''eu-west-2''],
            awsMainStack = [''accounts'' \<mapsto> [''dev'' \<mapsto> \<lparr>id' = ''111'', arn = ''role-dev''\<rparr>]],
            shared = Map.empty, dkimTokens = [], azNames = []\<rparr>"
        "[''dev'' \<mapsto> \<lparr>id' = ''111'', arn = ''role-dev''\<rparr>]"
        "\<lparr>id' = ''111'', arn = ''role-dev''\<rparr>" "''eu-west-2''"]
  by (simp add: getOutput_def)

section \<open>The accounts mapping\<close>




section \<open>What a failed account resolution holds back\<close>

lemma shared_account_member_missing:
  assumes "getOutput (awsMainStack e) ''accounts'' = Some accounts"
    and "accounts (stack e) = None"
    and "stack e \<notin> set object_prototype"
  shows "shared_account_member e f = Inl TypeError"
  using assms
  by (simp add: shared_account_member_def shared_accounts_def js_index_missing js_member_def)

lemma api_account_member_missing:
  assumes "getOutput (awsMainStack e) ''accounts'' = Some accounts"
    and "accounts (stack e) = None"
    and "stack e \<notin> set object_prototype"
  shows "api_account_member e f = Inl TypeError"
  using assms
  by (simp add: api_account_member_def requireOutput_def getOutput_def js_index_missing
      js_member_def)

lemma shared_provider_rejected:
  "shared_account_member e id' = Inl err \<Longrightarrow> rejected (shared_provider e region)"
  by (simp add: rejected_def shared_provider_def resource_def output_of_def)

lemma api_provider_rejected:
  "api_account_member e id' = Inl err \<Longrightarrow> rejected (api_provider e)"
  by (simp add: rejected_def api_provider_def resource_def output_of_def)

lemma shared_sesDomainDkimRecords_deps:
  "d \<in> set (shared_sesDomainDkimRecords e) \<Longrightarrow> ''sesDomainDkim'' \<in> set (deps d)"
  by (auto simp: shared_sesDomainDkimRecords_def shared_sesDomainDkimRecord_deps(1))

lemma shared_sesDomainDkimRecords_fields:
  assumes "d \<in> set (shared_sesDomainDkimRecords e)"
  shows "kind d = New" and "rtype d = ''cf.Record''" and "opt_provider d = None"
    and "var d \<noteq> ''provider''"
  using assms
  by (auto simp: shared_sesDomainDkimRecords_def shared_sesDomainDkimRecord_def resource_def)

lemma shared_resources_mem:
  "d \<in> set (shared_resources e region cfZoneId) \<longleftrightarrow>
     d \<in> set (shared_sesDomainDkimRecords e) \<or>
     d \<in> {shared_awsMainStack, shared_provider e region, shared_cloudflareZone e cfZoneId,
       shared_sesDomainIdentity e, shared_sesDomainDkim e,
       shared_sesRecordVerificationRecord e, shared_sesDomainVerification e,
       shared_certificate e, shared_certificateValidation e,
       shared_certificateValidationRecord e, shared_vpc e,
       shared_loadBalancerSecurityGroup e, shared_loadBalancer e, shared_listener e,
       shared_ecsCluster e, shared_rdsSecurityGroup e, shared_rdsSubnetGroup e,
       shared_rdsInstanceMasterPassword e, shared_rdsCluster e, shared_rdsInstance e}"
  unfolding shared_resources_def by auto

lemma shared_fixed_provider:
  "\<forall>d \<in> {shared_awsMainStack, shared_provider e region, shared_cloudflareZone e cfZoneId,
       shared_sesDomainIdentity e, shared_sesDomainDkim e,
       shared_sesRecordVerificationRecord e, shared_sesDomainVerification e,
       shared_certificate e, shared_certificateValidation e,
       shared_certificateValidationRecord e, shared_vpc e,
       shared_loadBalancerSecurityGroup e, shared_loadBalancer e, shared_listener e,
       shared_ecsCluster e, shared_rdsSecurityGroup e, shared_rdsSubnetGroup e,
       shared_rdsInstanceMasterPassword e, shared_rdsCluster e, shared_rdsInstance e}.
     var d = ''provider'' \<longrightarrow> d = shared_provider e region"
  by simp

lemma shared_resources_provider:
  assumes "d \<in> set (shared_resources e region cfZoneId)" and "var d = ''provider''"
  shows "d = shared_provider e region"
proof -
  from assms(1) [unfolded shared_resources_mem] show ?thesis
  proof
    assume "d \<in> set (shared_sesDomainDkimRecords e)"
    from shared_sesDomainDkimRecords_fields(4) [OF this] assms(2) show ?thesis by simp
  next
    assume "d \<in> {shared_awsMainStack, shared_provider e region,
       shared_cloudflareZone e cfZoneId,
       shared_sesDomainIdentity e, shared_sesDomainDkim e,
       shared_sesRecordVerificationRecord e, shared_sesDomainVerification e,
       shared_certificate e, shared_certificateValidation e,
       shared_certificateValidationRecord e, shared_vpc e,
       shared_loadBalancerSecurityGroup e, shared_loadBalancer e, shared_listener e,
       shared_ecsCluster e, shared_rdsSecurityGroup e, shared_rdsSubnetGroup e,
       shared_rdsInstanceMasterPassword e, shared_rdsCluster e, shared_rdsInstance e}"
    from bspec [OF shared_fixed_provider this] assms(2) show ?thesis by simp
  qed
qed

lemma api_resources_mem:
  "d \<in> set (api_resources e domain exampleSecret) \<longleftrightarrow>
     d \<in> fst ` set (api_secretAsArns e exampleSecret) \<or>
     d \<in> {api_awsMainStack, api_shared e, api_provider e, api_targetGroup e,
       api_listenerRule e domain, api_repository e, api_image e, api_executionRole e,
       api_ssmPolicyAttachment e, api_taskExecutionPolicyAttachment e,
       api_securityGroup e, api_appService e exampleSecret, api_appDomainRecord e}"
  unfolding api_resources_def by auto

lemma api_secretAsArns_fields:
  assumes "d \<in> fst ` set (api_secretAsArns e exampleSecret)"
  shows "kind d = New" and "rtype d = ''aws.ssm.Parameter''"
    and "opt_provider d = Some ''provider''" and "var d = ''secret(EXAMPLE_SECRET)''"
  using assms by (auto simp: api_secretAsArns_def api_secrets_def)

lemma api_fixed_provider:
  "\<forall>d \<in> {api_awsMainStack, api_shared e, api_provider e, api_targetGroup e,
       api_listenerRule e domain, api_repository e, api_image e, api_executionRole e,
       api_ssmPolicyAttachment e, api_taskExecutionPolicyAttachment e,
       api_securityGroup e, api_appService e exampleSecret, api_appDomainRecord e}.
     (var d = ''provider'' \<longrightarrow> d = api_provider e) \<and>
     (var d \<in> {''awsMainStack'', ''shared'', ''appDomainRecord'', ''provider''} \<or>
      opt_provider d = Some ''provider'')"
  by simp

lemma api_resources_provider:
  assumes "d \<in> set (api_resources e domain exampleSecret)" and "var d = ''provider''"
  shows "d = api_provider e"
proof -
  from assms(1) [unfolded api_resources_mem] show ?thesis
  proof
    assume "d \<in> fst ` set (api_secretAsArns e exampleSecret)"
    from api_secretAsArns_fields(4) [OF this] assms(2) show ?thesis by simp
  next
    assume "d \<in> {api_awsMainStack, api_shared e, api_provider e, api_targetGroup e,
       api_listenerRule e domain, api_repository e, api_image e, api_executionRole e,
       api_ssmPolicyAttachment e, api_taskExecutionPolicyAttachment e,
       api_securityGroup e, api_appService e exampleSecret, api_appDomainRecord e}"
    from bspec [OF api_fixed_provider this] assms(2) show ?thesis by simp
  qed
qed

text \<open>In the shared project everything but the two reads and the random password waits,
  directly or through another resource, for the provider.\<close>

lemma shared_fixed_waits:
  "\<forall>d \<in> {shared_awsMainStack, shared_provider e region, shared_cloudflareZone e cfZoneId,
       shared_sesDomainIdentity e, shared_sesDomainDkim e,
       shared_sesRecordVerificationRecord e, shared_sesDomainVerification e,
       shared_certificate e, shared_certificateValidation e,
       shared_certificateValidationRecord e, shared_vpc e,
       shared_loadBalancerSecurityGroup e, shared_loadBalancer e, shared_listener e,
       shared_ecsCluster e, shared_rdsSecurityGroup e, shared_rdsSubnetGroup e,
       shared_rdsInstanceMasterPassword e, shared_rdsCluster e, shared_rdsInstance e}.
     var d \<in> {''awsMainStack'', ''cloudflareZone'', ''rdsInstanceMasterPassword'', ''provider''} \<or>
     opt_provider d = Some ''provider'' \<or>
     ''sesDomainIdentity'' \<in> set (deps d) \<or> ''certificate'' \<in> set (deps d)"
  by (simp add: shared_sesRecordVerificationRecord_deps(1)
      shared_certificateValidationRecord_deps(1))

lemma waits_for: "q \<in> set (deps d) \<Longrightarrow> q \<notin> S \<Longrightarrow> \<exists>q \<in> set (deps d). q \<notin> S"
  by (rule bexI)

lemma shared_waits_for_provider:
  assumes "d \<in> set (shared_resources e region cfZoneId)"
    and "var d \<notin> {''awsMainStack'', ''cloudflareZone'', ''rdsInstanceMasterPassword''}"
    and "var d \<noteq> ''provider''"
  shows "\<exists>q \<in> set (deps d).
           q \<notin> {''awsMainStack'', ''cloudflareZone'', ''rdsInstanceMasterPassword''}"
proof -
  from assms(1) [unfolded shared_resources_mem]
  consider (dkim) "''sesDomainDkim'' \<in> set (deps d)"
    | (aws) "opt_provider d = Some ''provider''"
    | (ident) "''sesDomainIdentity'' \<in> set (deps d)"
    | (cert) "''certificate'' \<in> set (deps d)"
  proof
    assume "d \<in> set (shared_sesDomainDkimRecords e)"
    from shared_sesDomainDkimRecords_deps [OF this] show ?thesis by (rule dkim)
  next
    assume "d \<in> {shared_awsMainStack, shared_provider e region,
       shared_cloudflareZone e cfZoneId,
       shared_sesDomainIdentity e, shared_sesDomainDkim e,
       shared_sesRecordVerificationRecord e, shared_sesDomainVerification e,
       shared_certificate e, shared_certificateValidation e,
       shared_certificateValidationRecord e, shared_vpc e,
       shared_loadBalancerSecurityGroup e, shared_loadBalancer e, shared_listener e,
       shared_ecsCluster e, shared_rdsSecurityGroup e, shared_rdsSubnetGroup e,
       shared_rdsInstanceMasterPassword e, shared_rdsCluster e, shared_rdsInstance e}"
    from bspec [OF shared_fixed_waits this] assms(2,3)
    have "opt_provider d = Some ''provider'' \<or>
          ''sesDomainIdentity'' \<in> set (deps d) \<or> ''certificate'' \<in> set (deps d)"
      by simp
    then show ?thesis using aws ident cert by (elim disjE)
  qed
  then show ?thesis
  proof cases
    case dkim
    then show ?thesis by (rule waits_for) simp
  next
    case aws
    from provider_in_deps [OF this] show ?thesis by (rule waits_for) simp
  next
    case ident
    then show ?thesis by (rule waits_for) simp
  next
    case cert
    then show ?thesis by (rule waits_for) simp
  qed
qed

lemma shared_program_cases:
  "\<exists>region cfZoneId.
     set (snd (shared_program e)) \<subseteq> set (shared_resources e region cfZoneId)"
proof (cases "require ''aws'' (config e) ''region''")
  case (Inl err)
  then have "set (snd (shared_program e)) \<subseteq> set (shared_resources e r z)" for r z
    by (simp add: shared_program_def shared_resources_mem)
  then show ?thesis by blast
next
  case region: (Inr region)
  show ?thesis
  proof (cases "require ''shared'' (config e) ''cfZoneId''")
    case (Inl err)
    with region have "set (snd (shared_program e)) \<subseteq> set (shared_resources e region z)"
      for z
      by (simp add: shared_program_def shared_resources_mem)
    then show ?thesis by blast
  next
    case (Inr cfZoneId)
    with region have "snd (shared_program e) = shared_resources e region cfZoneId"
      by (simp add: shared_program_def)
    then show ?thesis by auto
  qed
qed

lemma shared_program_blocked:
  assumes rej: "\<And>region. rejected (shared_provider e region)"
    and d: "d \<in> set (snd (shared_program e))"
    and v: "var d \<notin> {''awsMainStack'', ''cloudflareZone'', ''rdsInstanceMasterPassword''}"
  shows "rejected d \<or> (\<exists>q \<in> set (deps d).
           q \<notin> {''awsMainStack'', ''cloudflareZone'', ''rdsInstanceMasterPassword''})"
proof -
  from shared_program_cases [of e] d
  obtain region cfZoneId where in_all: "d \<in> set (shared_resources e region cfZoneId)"
    by blast
  show ?thesis
  proof (cases "var d = ''provider''")
    case True
    with in_all have "d = shared_provider e region"
      by (rule shared_resources_provider)
    with rej show ?thesis by simp
  next
    case False
    from shared_waits_for_provider [OF in_all v False] show ?thesis by simp
  qed
qed

lemma api_waits_for_provider:
  assumes "d \<in> set (api_resources e domain exampleSecret)"
    and "var d \<notin> {''awsMainStack'', ''shared'', ''appDomainRecord''}"
    and "var d \<noteq> ''provider''"
  shows "\<exists>q \<in> set (deps d). q \<notin> {''awsMainStack'', ''shared'', ''appDomainRecord''}"
proof -
  from assms(1) [unfolded api_resources_mem]
  have "opt_provider d = Some ''provider''"
  proof
    assume "d \<in> fst ` set (api_secretAsArns e exampleSecret)"
    then show ?thesis by (rule api_secretAsArns_fields(3))
  next
    assume "d \<in> {api_awsMainStack, api_shared e, api_provider e, api_targetGroup e,
       api_listenerRule e domain, api_repository e, api_image e, api_executionRole e,
       api_ssmPolicyAttachment e, api_taskExecutionPolicyAttachment e,
       api_securityGroup e, api_appService e exampleSecret, api_appDomainRecord e}"
    from bspec [OF api_fixed_provider this] assms(2,3) show ?thesis by simp
  qed
  from provider_in_deps [OF this] show ?thesis by (rule waits_for) simp
qed

lemma api_program_cases:
  "\<exists>domain exampleSecret.
     set (snd (api_program e)) \<subseteq> set (api_resources e domain exampleSecret)"
proof (cases "\<exists>domain exampleSecret.
    snd (api_program e) = api_resources e domain exampleSecret")
  case True
  then obtain domain exampleSecret
    where "snd (api_program e) = api_resources e domain exampleSecret" by blast
  then have "set (snd (api_program e)) \<subseteq> set (api_resources e domain exampleSecret)"
    by simp
  then show ?thesis by blast
next
  case False
  then have "snd (api_program e) = [api_awsMainStack, api_shared e, api_provider e]"
    by (auto simp: api_program_def split: sum.splits)
  then have "set (snd (api_program e)) \<subseteq> set (api_resources e d x)" for d x
    by (simp add: api_resources_mem)
  then show ?thesis by blast
qed

lemma api_program_blocked:
  assumes rej: "rejected (api_provider e)"
    and d: "d \<in> set (snd (api_program e))"
    and v: "var d \<notin> {''awsMainStack'', ''shared'', ''appDomainRecord''}"
  shows "rejected d \<or> (\<exists>q \<in> set (deps d).
           q \<notin> {''awsMainStack'', ''shared'', ''appDomainRecord''})"
proof -
  from api_program_cases [of e] d
  obtain domain exampleSecret where in_all: "d \<in> set (api_resources e domain exampleSecret)"
    by blast
  show ?thesis
  proof (cases "var d = ''provider''")
    case True
    with in_all have "d = api_provider e"
      by (rule api_resources_provider)
    with rej show ?thesis by simp
  next
    case False
    from api_waits_for_provider [OF in_all v False] show ?thesis by simp
  qed
qed

text \<open>
  C2, as amended. When the accounts mapping has no record for the stack and the stack's
  name is not one that every JavaScript object inherits, reading the record's identifier
  or role ARN raises a TypeError in both projects. The provider is then never created,
  and no run creates anything that waits for it: a run of the shared project carries
  out at most the two reads and the random password, a run of the service project at
  most the two reads and the DNS record.
\<close>

theorem absent_account_fails:
  assumes "getOutput (awsMainStack e) ''accounts'' = Some accounts"
    and "accounts (stack e) = None"
    and "stack e \<notin> set object_prototype"
  shows "shared_account_member e id' = Inl TypeError \<and>
         shared_account_member e arn = Inl TypeError \<and>
         api_account_member e id' = Inl TypeError \<and>
         api_account_member e arn = Inl TypeError \<and>
         (\<forall>vs. run (snd (shared_program e)) vs \<longrightarrow>
            set vs \<subseteq> {''awsMainStack'', ''cloudflareZone'', ''rdsInstanceMasterPassword''}) \<and>
         (\<forall>vs. run (snd (api_program e)) vs \<longrightarrow>
            set vs \<subseteq> {''awsMainStack'', ''shared'', ''appDomainRecord''})"
proof -
  have s: "shared_account_member e f = Inl TypeError" for f
    using assms by (rule shared_account_member_missing)
  have a: "api_account_member e f = Inl TypeError" for f
    using assms by (rule api_account_member_missing)
  have srej: "rejected (shared_provider e region)" for region
    using s by (rule shared_provider_rejected)
  have arej: "rejected (api_provider e)"
    using a by (rule api_provider_rejected)
  have "set vs \<subseteq> {''awsMainStack'', ''cloudflareZone'', ''rdsInstanceMasterPassword''}"
    if r: "run (snd (shared_program e)) vs" for vs
  proof -
    have "set vs \<inter> - {''awsMainStack'', ''cloudflareZone'', ''rdsInstanceMasterPassword''} = {}"
    proof (rule run_blocked [OF _ r])
      fix d
      assume "d \<in> set (snd (shared_program e))"
        and "var d \<in> - {''awsMainStack'', ''cloudflareZone'', ''rdsInstanceMasterPassword''}"
      with shared_program_blocked [OF srej, of d]
      show "rejected d \<or> (\<exists>q \<in> set (deps d).
              q \<in> - {''awsMainStack'', ''cloudflareZone'', ''rdsInstanceMasterPassword''})"
        by simp
    qed
    then show ?thesis by blast
  qed
  moreover have "set vs \<subseteq> {''awsMainStack'', ''shared'', ''appDomainRecord''}"
    if r: "run (snd (api_program e)) vs" for vs
  proof -
    have "set vs \<inter> - {''awsMainStack'', ''shared'', ''appDomainRecord''} = {}"
    proof (rule run_blocked [OF _ r])
      fix d
      assume "d \<in> set (snd (api_program e))"
        and "var d \<in> - {''awsMainStack'', ''shared'', ''appDomainRecord''}"
      with api_program_blocked [OF arej, of d]
      show "rejected d \<or> (\<exists>q \<in> set (deps d).
              q \<in> - {''awsMainStack'', ''shared'', ''appDomainRecord''})"
        by simp
    qed
    then show ?thesis by blast
  qed
  ultimately show ?thesis using s a by blast
qed

theorem absent_account_fails_witness:
  "shared_account_member
     \<lparr>project = ''shared'', stack = ''staging'',
      config = [''aws:region'' \<mapsto> ''eu-west-2'', ''shared:cfZoneId'' \<mapsto> ''z1''],
      awsMainStack = [''accounts'' \<mapsto> [''dev'' \<mapsto> \<lparr>id' = ''111'', arn = ''role-dev''\<rparr>]],
      shared = Map.empty, dkimTokens = [], azNames = []\<rparr> id' = Inl TypeError \<and>
   set [''awsMainStack'', ''rdsInstanceMasterPassword'']
     \<subseteq> {''awsMainStack'', ''cloudflareZone'', ''rdsInstanceMasterPassword''}"
proof -
  let ?e = "\<lparr>project = ''shared'', stack = ''staging'',
      config = [''aws:region'' \<mapsto> ''eu-west-2'', ''shared:cfZoneId'' \<mapsto> ''z1''],
      awsMainStack = [''accounts'' \<mapsto> [''dev'' \<mapsto> \<lparr>id' = ''111'', arn = ''role-dev''\<rparr>]],
      shared = Map.empty, dkimTokens = [], azNames = []\<rparr>"
  have 1: "getOutput (awsMainStack ?e) ''accounts'' =
      Some [''dev'' \<mapsto> \<lparr>id' = ''111'', arn = ''role-dev''\<rparr>]"
    by (simp add: getOutput_def)
  have 2: "[''dev'' \<mapsto> \<lparr>id' = ''111'', arn = ''role-dev''\<rparr>] (stack ?e) = None"
    by simp
  have 3: "stack ?e \<notin> set object_prototype"
    by (simp add: object_prototype_def)
  have p: "shared_program ?e = (None, shared_resources ?e ''eu-west-2'' ''z1'')"
    by (rule shared_program_configured) simp_all
  have r: "run (snd (shared_program ?e)) [''awsMainStack'', ''rdsInstanceMasterPassword'']"
    by (simp add: p run_def creatable_def shared_resources_find
        shared_awsMainStack_deps shared_rdsInstanceMasterPassword_deps)
  from absent_account_fails [OF 1 2 3] r show ?thesis by blast
qed

text \<open>
  C2 as stated fails. With the mapping \<open>{dev}\<close> and the stack \<open>staging\<close> the resolution
  raises, yet the engine may carry out the declaration of the random password, which
  waits for nothing: a resource of the shared project is created although the account
  resolution fails. And with the stack \<open>constructor\<close>, which the mapping lacks as well,
  nothing is raised: the lookup finds the inherited property and both members read as
  \<^verbatim>\<open>undefined\<close>.
\<close>

theorem absent_account_counterexample:
  "shared_account_member
     \<lparr>project = ''shared'', stack = ''staging'',
      config = [''aws:region'' \<mapsto> ''eu-west-2'', ''shared:cfZoneId'' \<mapsto> ''z1''],
      awsMainStack = [''accounts'' \<mapsto> [''dev'' \<mapsto> \<lparr>id' = ''111'', arn = ''role-dev''\<rparr>]],
      shared = Map.empty, dkimTokens = [], azNames = []\<rparr> id' = Inl TypeError \<and>
   run (snd (shared_program
     \<lparr>project = ''shared'', stack = ''staging'',
      config = [''aws:region'' \<mapsto> ''eu-west-2'', ''shared:cfZoneId'' \<mapsto> ''z1''],
      awsMainStack = [''accounts'' \<mapsto> [''dev'' \<mapsto> \<lparr>id' = ''111'', arn = ''role-dev''\<rparr>]],
      shared = Map.empty, dkimTokens = [], azNames = []\<rparr>))
     [''rdsInstanceMasterPassword''] \<and>
   map var (created (snd (shared_program
     \<lparr>project = ''shared'', stack = ''staging'',
      config = [''aws:region'' \<mapsto> ''eu-west-2'', ''shared:cfZoneId'' \<mapsto> ''z1''],
      awsMainStack = [''accounts'' \<mapsto> [''dev'' \<mapsto> \<lparr>id' = ''111'', arn = ''role-dev''\<rparr>]],
      shared = Map.empty, dkimTokens = [], azNames = []\<rparr>))
     [''rdsInstanceMasterPassword'']) = [''rdsInstanceMasterPassword''] \<and>
   shared_account_member
     \<lparr>project = ''shared'', stack = ''constructor'',
      config = [''aws:region'' \<mapsto> ''eu-west-2'', ''shared:cfZoneId'' \<mapsto> ''z1''],
      awsMainStack = [''accounts'' \<mapsto> [''dev'' \<mapsto> \<lparr>id' = ''111'', arn = ''role-dev''\<rparr>]],
      shared = Map.empty, dkimTokens = [], azNames = []\<rparr> id' = Inr Undefined \<and>
   api_account_member
     \<lparr>project = ''api'', stack = ''constructor'',
      config = Map.empty,
      awsMainStack = [''accounts'' \<mapsto> [''dev'' \<mapsto> \<lparr>id' = ''111'', arn = ''role-dev''\<rparr>]],
      shared = Map.empty, dkimTokens = [], azNames = []\<rparr> arn = Inr Undefined"
proof -
  let ?e = "\<lparr>project = ''shared'', stack = ''staging'',
      config = [''aws:region'' \<mapsto> ''eu-west-2'', ''shared:cfZoneId'' \<mapsto> ''z1''],
      awsMainStack = [''accounts'' \<mapsto> [''dev'' \<mapsto> \<lparr>id' = ''111'', arn = ''role-dev''\<rparr>]],
      shared = Map.empty, dkimTokens = [], azNames = []\<rparr>"
  have p: "shared_program ?e = (None, shared_resources ?e ''eu-west-2'' ''z1'')"
    by (rule shared_program_configured) simp_all
  have 1: "shared_account_member ?e id' = Inl TypeError"
    by (simp add: shared_account_member_def shared_accounts_def getOutput_def js_index_def
        js_member_def object_prototype_def)
  have 2: "run (snd (shared_program ?e)) [''rdsInstanceMasterPassword'']"
    by (simp add: p run_def creatable_def shared_resources_find
        shared_rdsInstanceMasterPassword_deps)
  have 3: "map var (created (snd (shared_program ?e)) [''rdsInstanceMasterPassword''])
      = [''rdsInstanceMasterPassword'']"
    by (simp add: p created_def shared_resources_def shared_sesDomainDkimRecords_def)
  have 4: "shared_account_member (?e\<lparr>stack := ''constructor''\<rparr>) id' = Inr Undefined"
    by (simp add: shared_account_member_def shared_accounts_def getOutput_def js_index_def
        js_member_def object_prototype_def)
  have 5: "api_account_member
     \<lparr>project = ''api'', stack = ''constructor'',
      config = Map.empty,
      awsMainStack = [''accounts'' \<mapsto> [''dev'' \<mapsto> \<lparr>id' = ''111'', arn = ''role-dev''\<rparr>]],
      shared = Map.empty, dkimTokens = [], azNames = []\<rparr> arn = Inr Undefined"
    by (simp add: api_account_member_def requireOutput_def js_index_def
        js_member_def object_prototype_def)
  from 1 2 3 4 5 show ?thesis by simp
qed

section \<open>Which resources go through the scoped provider\<close>

lemma shared_fixed_opt_provider:
  "\<forall>d \<in> {shared_awsMainStack, shared_provider e region, shared_cloudflareZone e cfZoneId,
       shared_sesDomainIdentity e, shared_sesDomainDkim e,
       shared_sesRecordVerificationRecord e, shared_sesDomainVerification e,
       shared_certificate e, shared_certificateValidation e,
       shared_certificateValidationRecord e, shared_vpc e,
       shared_loadBalancerSecurityGroup e, shared_loadBalancer e, shared_listener e,
       shared_ecsCluster e, shared_rdsSecurityGroup e, shared_rdsSubnetGroup e,
       shared_rdsInstanceMasterPassword e, shared_rdsCluster e, shared_rdsInstance e}.
     kind d = New \<longrightarrow>
     opt_provider d =
       (if aws_type (rtype d) \<and> rtype d \<noteq> ''aws.Provider'' then Some ''provider'' else None)"
  by (simp add: aws_type_def)

lemma api_fixed_opt_provider:
  "\<forall>d \<in> {api_awsMainStack, api_shared e, api_provider e, api_targetGroup e,
       api_listenerRule e domain, api_repository e, api_image e, api_executionRole e,
       api_ssmPolicyAttachment e, api_taskExecutionPolicyAttachment e,
       api_securityGroup e, api_appService e exampleSecret, api_appDomainRecord e}.
     kind d = New \<longrightarrow>
     opt_provider d =
       (if aws_type (rtype d) \<and> rtype d \<noteq> ''aws.Provider'' then Some ''provider'' else None)"
  by (simp add: aws_type_def)

lemma shared_resources_opt_provider:
  assumes "d \<in> set (shared_resources e region cfZoneId)" and "kind d = New"
  shows "opt_provider d =
       (if aws_type (rtype d) \<and> rtype d \<noteq> ''aws.Provider'' then Some ''provider'' else None)"
proof -
  from assms(1) [unfolded shared_resources_mem] show ?thesis
  proof
    assume "d \<in> set (shared_sesDomainDkimRecords e)"
    from shared_sesDomainDkimRecords_fields(2,3) [OF this] show ?thesis
      by (simp add: aws_type_def)
  next
    assume "d \<in> {shared_awsMainStack, shared_provider e region,
       shared_cloudflareZone e cfZoneId,
       shared_sesDomainIdentity e, shared_sesDomainDkim e,
       shared_sesRecordVerificationRecord e, shared_sesDomainVerification e,
       shared_certificate e, shared_certificateValidation e,
       shared_certificateValidationRecord e, shared_vpc e,
       shared_loadBalancerSecurityGroup e, shared_loadBalancer e, shared_listener e,
       shared_ecsCluster e, shared_rdsSecurityGroup e, shared_rdsSubnetGroup e,
       shared_rdsInstanceMasterPassword e, shared_rdsCluster e, shared_rdsInstance e}"
    from bspec [OF shared_fixed_opt_provider this] assms(2) show ?thesis by simp
  qed
qed

lemma api_resources_opt_provider:
  assumes "d \<in> set (api_resources e domain exampleSecret)" and "kind d = New"
  shows "opt_provider d =
       (if aws_type (rtype d) \<and> rtype d \<noteq> ''aws.Provider'' then Some ''provider'' else None)"
proof -
  from assms(1) [unfolded api_resources_mem] show ?thesis
  proof
    assume "d \<in> fst ` set (api_secretAsArns e exampleSecret)"
    from api_secretAsArns_fields(2,3) [OF this] show ?thesis
      by (simp add: aws_type_def)
  next
    assume "d \<in> {api_awsMainStack, api_shared e, api_provider e, api_targetGroup e,
       api_listenerRule e domain, api_repository e, api_image e, api_executionRole e,
       api_ssmPolicyAttachment e, api_taskExecutionPolicyAttachment e,
       api_securityGroup e, api_appService e exampleSecret, api_appDomainRecord e}"
    from bspec [OF api_fixed_opt_provider this] assms(2) show ?thesis by simp
  qed
qed

text \<open>
  C3, as amended. Every resource of the cloud provider's libraries that the shared or
  the service project creates, the scoped provider itself apart, names the scoped
  provider in its options; every other resource they create (the DNS records, the random
  password) names no provider. The constant \<open>provider\<close> is bound to the scoped provider
  and to nothing else.
\<close>

theorem cloud_resources_use_scoped_provider:
  assumes "d \<in> set (snd (shared_program e)) \<union> set (snd (api_program e))"
  shows "(kind d = New \<longrightarrow>
            opt_provider d =
              (if aws_type (rtype d) \<and> rtype d \<noteq> ''aws.Provider''
               then Some ''provider'' else None)) \<and>
         (var d = ''provider'' \<longrightarrow> rtype d = ''aws.Provider'' \<and> rname d = ''scoped-provider'')"
proof -
  from assms consider
    (s) region cfZoneId where "d \<in> set (shared_resources e region cfZoneId)"
    | (a) domain exampleSecret where "d \<in> set (api_resources e domain exampleSecret)"
    using shared_program_cases [of e] api_program_cases [of e] by blast
  then show ?thesis
  proof cases
    case s
    have "rtype d = ''aws.Provider'' \<and> rname d = ''scoped-provider''" if "var d = ''provider''"
      using shared_resources_provider [OF s that]
      by (simp add: shared_provider_def resource_def)
    with shared_resources_opt_provider [OF s] show ?thesis by blast
  next
    case a
    have "rtype d = ''aws.Provider'' \<and> rname d = ''scoped-provider''" if "var d = ''provider''"
      using api_resources_provider [OF a that]
      by (simp add: api_provider_def resource_def)
    with api_resources_opt_provider [OF a] show ?thesis by blast
  qed
qed

theorem cloud_resources_use_scoped_provider_witness:
  "opt_provider (shared_vpc
     \<lparr>project = ''shared'', stack = ''dev'',
      config = [''aws:region'' \<mapsto> ''eu-west-2'', ''shared:cfZoneId'' \<mapsto> ''z1''],
      awsMainStack = [''accounts'' \<mapsto> [''dev'' \<mapsto> \<lparr>id' = ''111'', arn = ''role-dev''\<rparr>]],
      shared = Map.empty, dkimTokens = [''t0'', ''t1'', ''t2''], azNames = [''eu-west-2a'']\<rparr>)
   = (if aws_type ''awsx.ec2.Vpc'' \<and> ''awsx.ec2.Vpc'' \<noteq> ''aws.Provider''
      then Some ''provider'' else None) \<and>
   aws_type ''awsx.ec2.Vpc''"
proof -
  let ?e = "\<lparr>project = ''shared'', stack = ''dev'',
      config = [''aws:region'' \<mapsto> ''eu-west-2'', ''shared:cfZoneId'' \<mapsto> ''z1''],
      awsMainStack = [''accounts'' \<mapsto> [''dev'' \<mapsto> \<lparr>id' = ''111'', arn = ''role-dev''\<rparr>]],
      shared = Map.empty, dkimTokens = [''t0'', ''t1'', ''t2''], azNames = [''eu-west-2a'']\<rparr>"
  have p: "shared_program ?e = (None, shared_resources ?e ''eu-west-2'' ''z1'')"
    by (rule shared_program_configured) simp_all
  have "shared_vpc ?e \<in> set (snd (shared_program ?e)) \<union> set (snd (api_program ?e))"
    by (simp add: p shared_resources_mem)
  from cloud_resources_use_scoped_provider [OF this] show ?thesis
    by (simp add: aws_type_def)
qed

text \<open>
  C3 as stated fails: the shared project creates the random password, and the service
  project its DNS record, with no provider named.
\<close>

theorem scoped_provider_bypassed_counterexample:
  "shared_rdsInstanceMasterPassword
     \<lparr>project = ''shared'', stack = ''dev'',
      config = [''aws:region'' \<mapsto> ''eu-west-2'', ''shared:cfZoneId'' \<mapsto> ''z1''],
      awsMainStack = [''accounts'' \<mapsto> [''dev'' \<mapsto> \<lparr>id' = ''111'', arn = ''role-dev''\<rparr>]],
      shared = Map.empty, dkimTokens = [''t0'', ''t1'', ''t2''], azNames = [''eu-west-2a'']\<rparr>
   \<in> set (snd (shared_program
     \<lparr>project = ''shared'', stack = ''dev'',
      config = [''aws:region'' \<mapsto> ''eu-west-2'', ''shared:cfZoneId'' \<mapsto> ''z1''],
      awsMainStack = [''accounts'' \<mapsto> [''dev'' \<mapsto> \<lparr>id' = ''111'', arn = ''role-dev''\<rparr>]],
      shared = Map.empty, dkimTokens = [''t0'', ''t1'', ''t2''], azNames = [''eu-west-2a'']\<rparr>)) \<and>
   kind (shared_rdsInstanceMasterPassword
     \<lparr>project = ''shared'', stack = ''dev'',
      config = [''aws:region'' \<mapsto> ''eu-west-2'', ''shared:cfZoneId'' \<mapsto> ''z1''],
      awsMainStack = [''accounts'' \<mapsto> [''dev'' \<mapsto> \<lparr>id' = ''111'', arn = ''role-dev''\<rparr>]],
      shared = Map.empty, dkimTokens = [''t0'', ''t1'', ''t2''], azNames = [''eu-west-2a'']\<rparr>) = New \<and>
   opt_provider (shared_rdsInstanceMasterPassword
     \<lparr>project = ''shared'', stack = ''dev'',
      config = [''aws:region'' \<mapsto> ''eu-west-2'', ''shared:cfZoneId'' \<mapsto> ''z1''],
      awsMainStack = [''accounts'' \<mapsto> [''dev'' \<mapsto> \<lparr>id' = ''111'', arn = ''role-dev''\<rparr>]],
      shared = Map.empty, dkimTokens = [''t0'', ''t1'', ''t2''], azNames = [''eu-west-2a'']\<rparr>) = None \<and>
   api_appDomainRecord
     \<lparr>project = ''api'', stack = ''dev'',
      config = [''api:domain'' \<mapsto> ''api.example.com'', ''api:EXAMPLE_SECRET'' \<mapsto> ''s3cret''],
      awsMainStack = [''accounts'' \<mapsto> [''dev'' \<mapsto> \<lparr>id' = ''111'', arn = ''role-dev''\<rparr>]],
      shared = Map.empty, dkimTokens = [], azNames = []\<rparr>
   \<in> set (snd (api_program
     \<lparr>project = ''api'', stack = ''dev'',
      config = [''api:domain'' \<mapsto> ''api.example.com'', ''api:EXAMPLE_SECRET'' \<mapsto> ''s3cret''],
      awsMainStack = [''accounts'' \<mapsto> [''dev'' \<mapsto> \<lparr>id' = ''111'', arn = ''role-dev''\<rparr>]],
      shared = Map.empty, dkimTokens = [], azNames = []\<rparr>)) \<and>
   kind (api_appDomainRecord
     \<lparr>project = ''api'', stack = ''dev'',
      config = [''api:domain'' \<mapsto> ''api.example.com'', ''api:EXAMPLE_SECRET'' \<mapsto> ''s3cret''],
      awsMainStack = [''accounts'' \<mapsto> [''dev'' \<mapsto> \<lparr>id' = ''111'', arn = ''role-dev''\<rparr>]],
      shared = Map.empty, dkimTokens = [], azNames = []\<rparr>) = New \<and>
   opt_provider (api_appDomainRecord
     \<lparr>project = ''api'', stack = ''dev'',
      config = [''api:domain'' \<mapsto> ''api.example.com'', ''api:EXAMPLE_SECRET'' \<mapsto> ''s3cret''],
      awsMainStack = [''accounts'' \<mapsto> [''dev'' \<mapsto> \<lparr>id' = ''111'', arn = ''role-dev''\<rparr>]],
      shared = Map.empty, dkimTokens = [], azNames = []\<rparr>) = None"
proof -
  let ?e = "\<lparr>project = ''shared'', stack = ''dev'',
      config = [''aws:region'' \<mapsto> ''eu-west-2'', ''shared:cfZoneId'' \<mapsto> ''z1''],
      awsMainStack = [''accounts'' \<mapsto> [''dev'' \<mapsto> \<lparr>id' = ''111'', arn = ''role-dev''\<rparr>]],
      shared = Map.empty, dkimTokens = [''t0'', ''t1'', ''t2''], azNames = [''eu-west-2a'']\<rparr>"
  let ?a = "\<lparr>project = ''api'', stack = ''dev'',
      config = [''api:domain'' \<mapsto> ''api.example.com'', ''api:EXAMPLE_SECRET'' \<mapsto> ''s3cret''],
      awsMainStack = [''accounts'' \<mapsto> [''dev'' \<mapsto> \<lparr>id' = ''111'', arn = ''role-dev''\<rparr>]],
      shared = Map.empty, dkimTokens = [], azNames = []\<rparr>"
  have p: "shared_program ?e = (None, shared_resources ?e ''eu-west-2'' ''z1'')"
    by (rule shared_program_configured) simp_all
  have q: "api_program ?a = (None, api_resources ?a ''api.example.com'' ''s3cret'')"
    by (simp add: api_program_def require_def)
  have "shared_rdsInstanceMasterPassword ?e \<in> set (snd (shared_program ?e))"
    by (simp add: p shared_resources_mem)
  moreover have "api_appDomainRecord ?a \<in> set (snd (api_program ?a))"
    by (simp add: q api_resources_mem)
  ultimately show ?thesis by simp
qed

section \<open>The two validation chains\<close>

lemma run_creatable:
  assumes "run prog (xs @ v # ys)"
  shows "creatable prog (rev xs) v"
  using assms by (simp add: run_def runs_from_append)

lemma shared_program_creatable:
  assumes "creatable (snd (shared_program e)) done v"
    and "v \<noteq> ''awsMainStack''" and "v \<noteq> ''provider''"
  shows "\<exists>region cfZoneId. snd (shared_program e) = shared_resources e region cfZoneId"
proof (cases "require ''aws'' (config e) ''region''")
  case (Inl err)
  with assms(1,2) show ?thesis
    by (simp add: shared_program_def creatable_def)
next
  case r: (Inr region)
  show ?thesis
  proof (cases "require ''shared'' (config e) ''cfZoneId''")
    case (Inl err)
    with r assms show ?thesis
      by (simp add: shared_program_def creatable_def)
  next
    case (Inr cfZoneId)
    with r have "snd (shared_program e) = shared_resources e region cfZoneId"
      by (simp add: shared_program_def)
    then show ?thesis by blast
  qed
qed

text \<open>
  C5, as amended. In every run of the shared project the DNS record proving control of
  the domain is made only after the domain identity, whose verification token it
  publishes, and the verification completion only after that record; the DNS record for
  the certificate's domain validation is made only after the certificate, and so is the
  certificate validation. The certificate does not wait for the verification
  completion: the two chains are independent.
\<close>

theorem validation_chains_gated:
  assumes "run (snd (shared_program e)) (xs @ v # ys)"
  shows "(v = ''sesRecordVerificationRecord'' \<longrightarrow> ''sesDomainIdentity'' \<in> set xs) \<and>
         (v = ''sesDomainVerification'' \<longrightarrow>
            ''sesRecordVerificationRecord'' \<in> set xs \<and> ''sesDomainIdentity'' \<in> set xs) \<and>
         (v = ''certificateValidationRecord'' \<longrightarrow> ''certificate'' \<in> set xs) \<and>
         (v = ''certificateValidation'' \<longrightarrow> ''certificate'' \<in> set xs)"
proof -
  from assms have c: "creatable (snd (shared_program e)) (rev xs) v"
    by (rule run_creatable)
  have 1: "''sesDomainIdentity'' \<in> set xs" if v: "v = ''sesRecordVerificationRecord''"
  proof -
    from shared_program_creatable [OF c] v obtain region cfZoneId
      where "snd (shared_program e) = shared_resources e region cfZoneId" by auto
    with c show ?thesis
      by (simp add: v creatable_def shared_resources_find
          shared_sesRecordVerificationRecord_deps)
  qed
  have 2: "''sesRecordVerificationRecord'' \<in> set xs \<and> ''sesDomainIdentity'' \<in> set xs"
    if v: "v = ''sesDomainVerification''"
  proof -
    from shared_program_creatable [OF c] v obtain region cfZoneId
      where "snd (shared_program e) = shared_resources e region cfZoneId" by auto
    with c show ?thesis
      by (simp add: v creatable_def shared_resources_find shared_sesDomainVerification_deps)
  qed
  have 3: "''certificate'' \<in> set xs" if v: "v = ''certificateValidationRecord''"
  proof -
    from shared_program_creatable [OF c] v obtain region cfZoneId
      where "snd (shared_program e) = shared_resources e region cfZoneId" by auto
    with c show ?thesis
      by (simp add: v creatable_def shared_resources_find
          shared_certificateValidationRecord_deps)
  qed
  have 4: "''certificate'' \<in> set xs" if v: "v = ''certificateValidation''"
  proof -
    from shared_program_creatable [OF c] v obtain region cfZoneId
      where "snd (shared_program e) = shared_resources e region cfZoneId" by auto
    with c show ?thesis
      by (simp add: v creatable_def shared_resources_find shared_certificateValidation_deps)
  qed
  from 1 2 3 4 show ?thesis by blast
qed

theorem validation_chains_gated_witness:
  "run (snd (shared_program
     \<lparr>project = ''shared'', stack = ''dev'',
      config = [''aws:region'' \<mapsto> ''eu-west-2'', ''shared:cfZoneId'' \<mapsto> ''z1''],
      awsMainStack = [''accounts'' \<mapsto> [''dev'' \<mapsto> \<lparr>id' = ''111'', arn = ''role-dev''\<rparr>]],
      shared = Map.empty, dkimTokens = [''t0'', ''t1'', ''t2''], azNames = [''eu-west-2a'']\<rparr>))
     ([''awsMainStack'', ''provider'', ''cloudflareZone'', ''sesDomainIdentity'',
       ''sesRecordVerificationRecord''] @ ''sesDomainVerification'' #
      [''certificate'', ''certificateValidationRecord'', ''certificateValidation'']) \<and>
   ''sesRecordVerificationRecord'' \<in>
     set [''awsMainStack'', ''provider'', ''cloudflareZone'', ''sesDomainIdentity'',
          ''sesRecordVerificationRecord'']"
proof -
  let ?e = "\<lparr>project = ''shared'', stack = ''dev'',
      config = [''aws:region'' \<mapsto> ''eu-west-2'', ''shared:cfZoneId'' \<mapsto> ''z1''],
      awsMainStack = [''accounts'' \<mapsto> [''dev'' \<mapsto> \<lparr>id' = ''111'', arn = ''role-dev''\<rparr>]],
      shared = Map.empty, dkimTokens = [''t0'', ''t1'', ''t2''], azNames = [''eu-west-2a'']\<rparr>"
  have p: "shared_program ?e = (None, shared_resources ?e ''eu-west-2'' ''z1'')"
    by (rule shared_program_configured) simp_all
  have i: "shared_account_member ?e id' = Inr (Str ''111'')"
    and a: "shared_account_member ?e arn = Inr (Str ''role-dev'')"
    by (simp_all add: shared_account_member_def shared_accounts_def getOutput_def js_index_def
        js_member_def)
  have r: "run (snd (shared_program ?e))
     ([''awsMainStack'', ''provider'', ''cloudflareZone'', ''sesDomainIdentity'',
       ''sesRecordVerificationRecord''] @ ''sesDomainVerification'' #
      [''certificate'', ''certificateValidationRecord'', ''certificateValidation''])"
    by (simp add: p run_def creatable_def shared_resources_find shared_deps
        shared_provider_deps [OF i a])
  from validation_chains_gated [OF r] r show ?thesis by blast
qed

text \<open>
  C5 as stated fails: the engine may make the certificate before the verification
  completion, which the certificate does not wait for. Nor does the certificate
  validation wait for the DNS record of the domain validation: what it waits for is the
  certificate and the provider.
\<close>

theorem validation_chain_counterexample:
  "run (snd (shared_program
     \<lparr>project = ''shared'', stack = ''dev'',
      config = [''aws:region'' \<mapsto> ''eu-west-2'', ''shared:cfZoneId'' \<mapsto> ''z1''],
      awsMainStack = [''accounts'' \<mapsto> [''dev'' \<mapsto> \<lparr>id' = ''111'', arn = ''role-dev''\<rparr>]],
      shared = Map.empty, dkimTokens = [''t0'', ''t1'', ''t2''], azNames = [''eu-west-2a'']\<rparr>))
     [''awsMainStack'', ''provider'', ''cloudflareZone'', ''certificate''] \<and>
   ''sesDomainVerification'' \<notin>
     set [''awsMainStack'', ''provider'', ''cloudflareZone'', ''certificate''] \<and>
   deps (shared_certificateValidation
     \<lparr>project = ''shared'', stack = ''dev'',
      config = [''aws:region'' \<mapsto> ''eu-west-2'', ''shared:cfZoneId'' \<mapsto> ''z1''],
      awsMainStack = [''accounts'' \<mapsto> [''dev'' \<mapsto> \<lparr>id' = ''111'', arn = ''role-dev''\<rparr>]],
      shared = Map.empty, dkimTokens = [''t0'', ''t1'', ''t2''], azNames = [''eu-west-2a'']\<rparr>)
     = [''certificate'', ''provider'']"
proof -
  let ?e = "\<lparr>project = ''shared'', stack = ''dev'',
      config = [''aws:region'' \<mapsto> ''eu-west-2'', ''shared:cfZoneId'' \<mapsto> ''z1''],
      awsMainStack = [''accounts'' \<mapsto> [''dev'' \<mapsto> \<lparr>id' = ''111'', arn = ''role-dev''\<rparr>]],
      shared = Map.empty, dkimTokens = [''t0'', ''t1'', ''t2''], azNames = [''eu-west-2a'']\<rparr>"
  have p: "shared_program ?e = (None, shared_resources ?e ''eu-west-2'' ''z1'')"
    by (rule shared_program_configured) simp_all
  have i: "shared_account_member ?e id' = Inr (Str ''111'')"
    and a: "shared_account_member ?e arn = Inr (Str ''role-dev'')"
    by (simp_all add: shared_account_member_def shared_accounts_def getOutput_def js_index_def
        js_member_def)
  have "run (snd (shared_program ?e))
     [''awsMainStack'', ''provider'', ''cloudflareZone'', ''certificate'']"
    by (simp add: p run_def creatable_def shared_resources_find shared_deps
        shared_provider_deps [OF i a])
  then show ?thesis by (simp add: shared_certificateValidation_deps)
qed

section \<open>What the service project creates\<close>

lemma refs_api_shared_member: "set (refs (api_shared_member e k m)) = {''shared''}"
  by (simp add: api_shared_member_def output_of_def split: option.splits)

lemma api_fixed_rtype:
  "\<forall>d \<in> {api_awsMainStack, api_shared e, api_provider e, api_targetGroup e,
       api_listenerRule e domain, api_repository e, api_image e, api_executionRole e,
       api_ssmPolicyAttachment e, api_taskExecutionPolicyAttachment e,
       api_securityGroup e, api_appService e exampleSecret, api_appDomainRecord e}.
     kind d = New \<longrightarrow>
     rtype d \<in> {''aws.Provider'', ''aws.ssm.Parameter'', ''aws.lb.TargetGroup'',
       ''aws.lb.ListenerRule'', ''awsx.ecr.Repository'', ''awsx.ecr.Image'', ''aws.iam.Role'',
       ''aws.iam.RolePolicyAttachment'', ''aws.ec2.SecurityGroup'',
       ''awsx.ecs.FargateService'', ''cf.Record''}"
  by simp

lemma api_resources_rtype:
  assumes "d \<in> set (api_resources e domain exampleSecret)" and "kind d = New"
  shows "rtype d \<in> {''aws.Provider'', ''aws.ssm.Parameter'', ''aws.lb.TargetGroup'',
       ''aws.lb.ListenerRule'', ''awsx.ecr.Repository'', ''awsx.ecr.Image'', ''aws.iam.Role'',
       ''aws.iam.RolePolicyAttachment'', ''aws.ec2.SecurityGroup'',
       ''awsx.ecs.FargateService'', ''cf.Record''}"
proof -
  from assms(1) [unfolded api_resources_mem] show ?thesis
  proof
    assume "d \<in> fst ` set (api_secretAsArns e exampleSecret)"
    from api_secretAsArns_fields(2) [OF this] show ?thesis by simp
  next
    assume "d \<in> {api_awsMainStack, api_shared e, api_provider e, api_targetGroup e,
       api_listenerRule e domain, api_repository e, api_image e, api_executionRole e,
       api_ssmPolicyAttachment e, api_taskExecutionPolicyAttachment e,
       api_securityGroup e, api_appService e exampleSecret, api_appDomainRecord e}"
    from bspec [OF api_fixed_rtype this] assms(2) show ?thesis by simp
  qed
qed

text \<open>
  C7, as amended. Every resource the service project creates is of one of eleven types:
  the provider, a parameter, a target group, a listener rule, a repository, an image,
  a role, a role policy attachment, a security group, a container service, a DNS
  record. None has the type of the shared project's network, load balancer, listener or
  cluster. The shared stack is only read, through the stack reference; the listener rule
  names the shared listener, the service the shared cluster, and the target group and
  the security group, which the service project does create of its own, the shared
  network, each by a value read from that reference and from nothing else.
\<close>

theorem service_only_attaches:
  "(\<forall>d \<in> set (snd (api_program e)). kind d = New \<longrightarrow>
      rtype d \<in> {''aws.Provider'', ''aws.ssm.Parameter'', ''aws.lb.TargetGroup'',
        ''aws.lb.ListenerRule'', ''awsx.ecr.Repository'', ''awsx.ecr.Image'',
        ''aws.iam.Role'', ''aws.iam.RolePolicyAttachment'', ''aws.ec2.SecurityGroup'',
        ''awsx.ecs.FargateService'', ''cf.Record''} \<and>
      rtype d \<notin> {rtype (shared_vpc e), rtype (shared_loadBalancer e),
                   rtype (shared_listener e), rtype (shared_ecsCluster e)}) \<and>
   kind (api_shared e) = Get \<and>
   map_of (args (api_listenerRule e domain)) ''listenerArn'' =
     Some (api_shared_member e ''listener'' ''arn'') \<and>
   map_of (args (api_appService e exampleSecret)) ''cluster'' =
     Some (api_shared_member e ''ecsCluster'' ''arn'') \<and>
   map_of (args (api_targetGroup e)) ''vpcId'' =
     Some (api_shared_member e ''vpc'' ''vpcId'') \<and>
   map_of (args (api_securityGroup e)) ''vpcId'' =
     Some (api_shared_member e ''vpc'' ''vpcId'') \<and>
   set (refs (api_shared_member e ''listener'' ''arn'')) = {''shared''} \<and>
   set (refs (api_shared_member e ''ecsCluster'' ''arn'')) = {''shared''} \<and>
   set (refs (api_shared_member e ''vpc'' ''vpcId'')) = {''shared''}"
proof -
  have "rtype d \<in> {''aws.Provider'', ''aws.ssm.Parameter'', ''aws.lb.TargetGroup'',
        ''aws.lb.ListenerRule'', ''awsx.ecr.Repository'', ''awsx.ecr.Image'',
        ''aws.iam.Role'', ''aws.iam.RolePolicyAttachment'', ''aws.ec2.SecurityGroup'',
        ''awsx.ecs.FargateService'', ''cf.Record''} \<and>
      rtype d \<notin> {rtype (shared_vpc e), rtype (shared_loadBalancer e),
                   rtype (shared_listener e), rtype (shared_ecsCluster e)}"
    if d: "d \<in> set (snd (api_program e))" and k: "kind d = New" for d
  proof -
    from api_program_cases [of e] d obtain domain exampleSecret
      where "d \<in> set (api_resources e domain exampleSecret)" by blast
    from api_resources_rtype [OF this k] show ?thesis by auto
  qed
  moreover have "map_of (args (api_listenerRule e domain)) ''listenerArn'' =
     Some (api_shared_member e ''listener'' ''arn'')"
    by (simp add: api_listenerRule_def with_provider_def resource_def)
  moreover have "map_of (args (api_appService e exampleSecret)) ''cluster'' =
     Some (api_shared_member e ''ecsCluster'' ''arn'')"
    by (simp add: api_appService_def with_provider_def resource_def)
  moreover have "map_of (args (api_targetGroup e)) ''vpcId'' =
     Some (api_shared_member e ''vpc'' ''vpcId'')"
    by (simp add: api_targetGroup_def with_provider_def resource_def)
  moreover have "map_of (args (api_securityGroup e)) ''vpcId'' =
     Some (api_shared_member e ''vpc'' ''vpcId'')"
    by (simp add: api_securityGroup_def with_provider_def resource_def)
  ultimately show ?thesis by (simp add: refs_api_shared_member)
qed

theorem service_only_attaches_witness:
  "kind (api_listenerRule
     \<lparr>project = ''api'', stack = ''dev'',
      config = [''api:domain'' \<mapsto> ''api.example.com'', ''api:EXAMPLE_SECRET'' \<mapsto> ''s3cret''],
      awsMainStack = [''accounts'' \<mapsto> [''dev'' \<mapsto> \<lparr>id' = ''111'', arn = ''role-dev''\<rparr>]],
      shared = [''listener'' \<mapsto> (), ''ecsCluster'' \<mapsto> (), ''vpc'' \<mapsto> (),
                ''loadBalancer'' \<mapsto> (), ''cloudflareZone'' \<mapsto> ()],
      dkimTokens = [], azNames = []\<rparr> ''api.example.com'') = New \<and>
   rtype (api_listenerRule
     \<lparr>project = ''api'', stack = ''dev'',
      config = [''api:domain'' \<mapsto> ''api.example.com'', ''api:EXAMPLE_SECRET'' \<mapsto> ''s3cret''],
      awsMainStack = [''accounts'' \<mapsto> [''dev'' \<mapsto> \<lparr>id' = ''111'', arn = ''role-dev''\<rparr>]],
      shared = [''listener'' \<mapsto> (), ''ecsCluster'' \<mapsto> (), ''vpc'' \<mapsto> (),
                ''loadBalancer'' \<mapsto> (), ''cloudflareZone'' \<mapsto> ()],
      dkimTokens = [], azNames = []\<rparr> ''api.example.com'') \<noteq> ''aws.lb.Listener''"
proof -
  let ?a = "\<lparr>project = ''api'', stack = ''dev'',
      config = [''api:domain'' \<mapsto> ''api.example.com'', ''api:EXAMPLE_SECRET'' \<mapsto> ''s3cret''],
      awsMainStack = [''accounts'' \<mapsto> [''dev'' \<mapsto> \<lparr>id' = ''111'', arn = ''role-dev''\<rparr>]],
      shared = [''listener'' \<mapsto> (), ''ecsCluster'' \<mapsto> (), ''vpc'' \<mapsto> (),
                ''loadBalancer'' \<mapsto> (), ''cloudflareZone'' \<mapsto> ()],
      dkimTokens = [], azNames = []\<rparr>"
  have q: "api_program ?a = (None, api_resources ?a ''api.example.com'' ''s3cret'')"
    by (simp add: api_program_def require_def)
  have m: "api_listenerRule ?a ''api.example.com'' \<in> set (snd (api_program ?a))"
    by (simp add: q api_resources_mem)
  have k: "kind (api_listenerRule ?a ''api.example.com'') = New"
    by simp
  from service_only_attaches [of ?a] have
    "\<forall>d \<in> set (snd (api_program ?a)). kind d = New \<longrightarrow>
      rtype d \<in> {''aws.Provider'', ''aws.ssm.Parameter'', ''aws.lb.TargetGroup'',
        ''aws.lb.ListenerRule'', ''awsx.ecr.Repository'', ''awsx.ecr.Image'',
        ''aws.iam.Role'', ''aws.iam.RolePolicyAttachment'', ''aws.ec2.SecurityGroup'',
        ''awsx.ecs.FargateService'', ''cf.Record''} \<and>
      rtype d \<notin> {rtype (shared_vpc ?a), rtype (shared_loadBalancer ?a),
                   rtype (shared_listener ?a), rtype (shared_ecsCluster ?a)}"
    by (rule conjunct1)
  from bspec [OF this m] k show ?thesis by simp
qed

text \<open>
  C7 as stated fails: the service project does create a network resource of its own, a
  security group in the shared network, and a load-balancing resource of its own, a
  target group in the same network.
\<close>

theorem service_creates_network_resource_counterexample:
  "api_securityGroup
     \<lparr>project = ''api'', stack = ''dev'',
      config = [''api:domain'' \<mapsto> ''api.example.com'', ''api:EXAMPLE_SECRET'' \<mapsto> ''s3cret''],
      awsMainStack = [''accounts'' \<mapsto> [''dev'' \<mapsto> \<lparr>id' = ''111'', arn = ''role-dev''\<rparr>]],
      shared = [''listener'' \<mapsto> (), ''ecsCluster'' \<mapsto> (), ''vpc'' \<mapsto> (),
                ''loadBalancer'' \<mapsto> (), ''cloudflareZone'' \<mapsto> ()],
      dkimTokens = [], azNames = []\<rparr>
   \<in> set (snd (api_program
     \<lparr>project = ''api'', stack = ''dev'',
      config = [''api:domain'' \<mapsto> ''api.example.com'', ''api:EXAMPLE_SECRET'' \<mapsto> ''s3cret''],
      awsMainStack = [''accounts'' \<mapsto> [''dev'' \<mapsto> \<lparr>id' = ''111'', arn = ''role-dev''\<rparr>]],
      shared = [''listener'' \<mapsto> (), ''ecsCluster'' \<mapsto> (), ''vpc'' \<mapsto> (),
                ''loadBalancer'' \<mapsto> (), ''cloudflareZone'' \<mapsto> ()],
      dkimTokens = [], azNames = []\<rparr>)) \<and>
   kind (api_securityGroup
     \<lparr>project = ''api'', stack = ''dev'',
      config = [''api:domain'' \<mapsto> ''api.example.com'', ''api:EXAMPLE_SECRET'' \<mapsto> ''s3cret''],
      awsMainStack = [''accounts'' \<mapsto> [''dev'' \<mapsto> \<lparr>id' = ''111'', arn = ''role-dev''\<rparr>]],
      shared = [''listener'' \<mapsto> (), ''ecsCluster'' \<mapsto> (), ''vpc'' \<mapsto> (),
                ''loadBalancer'' \<mapsto> (), ''cloudflareZone'' \<mapsto> ()],
      dkimTokens = [], azNames = []\<rparr>) = New \<and>
   rtype (api_securityGroup
     \<lparr>project = ''api'', stack = ''dev'',
      config = [''api:domain'' \<mapsto> ''api.example.com'', ''api:EXAMPLE_SECRET'' \<mapsto> ''s3cret''],
      awsMainStack = [''accounts'' \<mapsto> [''dev'' \<mapsto> \<lparr>id' = ''111'', arn = ''role-dev''\<rparr>]],
      shared = [''listener'' \<mapsto> (), ''ecsCluster'' \<mapsto> (), ''vpc'' \<mapsto> (),
                ''loadBalancer'' \<mapsto> (), ''cloudflareZone'' \<mapsto> ()],
      dkimTokens = [], azNames = []\<rparr>) = ''aws.ec2.SecurityGroup'' \<and>
   map_of (args (api_securityGroup
     \<lparr>project = ''api'', stack = ''dev'',
      config = [''api:domain'' \<mapsto> ''api.example.com'', ''api:EXAMPLE_SECRET'' \<mapsto> ''s3cret''],
      awsMainStack = [''accounts'' \<mapsto> [''dev'' \<mapsto> \<lparr>id' = ''111'', arn = ''role-dev''\<rparr>]],
      shared = [''listener'' \<mapsto> (), ''ecsCluster'' \<mapsto> (), ''vpc'' \<mapsto> (),
                ''loadBalancer'' \<mapsto> (), ''cloudflareZone'' \<mapsto> ()],
      dkimTokens = [], azNames = []\<rparr>)) ''vpcId'' =
     Some (From ''shared'' (Out ''shared'' [''vpc'', ''vpcId''])) \<and>
   api_targetGroup
     \<lparr>project = ''api'', stack = ''dev'',
      config = [''api:domain'' \<mapsto> ''api.example.com'', ''api:EXAMPLE_SECRET'' \<mapsto> ''s3cret''],
      awsMainStack = [''accounts'' \<mapsto> [''dev'' \<mapsto> \<lparr>id' = ''111'', arn = ''role-dev''\<rparr>]],
      shared = [''listener'' \<mapsto> (), ''ecsCluster'' \<mapsto> (), ''vpc'' \<mapsto> (),
                ''loadBalancer'' \<mapsto> (), ''cloudflareZone'' \<mapsto> ()],
      dkimTokens = [], azNames = []\<rparr>
   \<in> set (snd (api_program
     \<lparr>project = ''api'', stack = ''dev'',
      config = [''api:domain'' \<mapsto> ''api.example.com'', ''api:EXAMPLE_SECRET'' \<mapsto> ''s3cret''],
      awsMainStack = [''accounts'' \<mapsto> [''dev'' \<mapsto> \<lparr>id' = ''111'', arn = ''role-dev''\<rparr>]],
      shared = [''listener'' \<mapsto> (), ''ecsCluster'' \<mapsto> (), ''vpc'' \<mapsto> (),
                ''loadBalancer'' \<mapsto> (), ''cloudflareZone'' \<mapsto> ()],
      dkimTokens = [], azNames = []\<rparr>)) \<and>
   kind (api_targetGroup
     \<lparr>project = ''api'', stack = ''dev'',
      config = [''api:domain'' \<mapsto> ''api.example.com'', ''api:EXAMPLE_SECRET'' \<mapsto> ''s3cret''],
      awsMainStack = [''accounts'' \<mapsto> [''dev'' \<mapsto> \<lparr>id' = ''111'', arn = ''role-dev''\<rparr>]],
      shared = [''listener'' \<mapsto> (), ''ecsCluster'' \<mapsto> (), ''vpc'' \<mapsto> (),
                ''loadBalancer'' \<mapsto> (), ''cloudflareZone'' \<mapsto> ()],
      dkimTokens = [], azNames = []\<rparr>) = New \<and>
   rtype (api_targetGroup
     \<lparr>project = ''api'', stack = ''dev'',
      config = [''api:domain'' \<mapsto> ''api.example.com'', ''api:EXAMPLE_SECRET'' \<mapsto> ''s3cret''],
      awsMainStack = [''accounts'' \<mapsto> [''dev'' \<mapsto> \<lparr>id' = ''111'', arn = ''role-dev''\<rparr>]],
      shared = [''listener'' \<mapsto> (), ''ecsCluster'' \<mapsto> (), ''vpc'' \<mapsto> (),
                ''loadBalancer'' \<mapsto> (), ''cloudflareZone'' \<mapsto> ()],
      dkimTokens = [], azNames = []\<rparr>) = ''aws.lb.TargetGroup''"
proof -
  let ?a = "\<lparr>project = ''api'', stack = ''dev'',
      config = [''api:domain'' \<mapsto> ''api.example.com'', ''api:EXAMPLE_SECRET'' \<mapsto> ''s3cret''],
      awsMainStack = [''accounts'' \<mapsto> [''dev'' \<mapsto> \<lparr>id' = ''111'', arn = ''role-dev''\<rparr>]],
      shared = [''listener'' \<mapsto> (), ''ecsCluster'' \<mapsto> (), ''vpc'' \<mapsto> (),
                ''loadBalancer'' \<mapsto> (), ''cloudflareZone'' \<mapsto> ()],
      dkimTokens = [], azNames = []\<rparr>"
  have q: "api_program ?a = (None, api_resources ?a ''api.example.com'' ''s3cret'')"
    by (simp add: api_program_def require_def)
  have 1: "api_securityGroup ?a \<in> set (snd (api_program ?a))"
    and 2: "api_targetGroup ?a \<in> set (snd (api_program ?a))"
    by (simp_all add: q api_resources_mem)
  have 3: "map_of (args (api_securityGroup ?a)) ''vpcId'' =
     Some (From ''shared'' (Out ''shared'' [''vpc'', ''vpcId'']))"
    by (simp add: api_securityGroup_def with_provider_def resource_def api_shared_member_def
        output_of_def getOutput_def)
  from 1 2 3 show ?thesis by simp
qed

section \<open>The account\<close>

lemma deploy_aws_program:
  "deploy st aws_program =
     st(''devAccountEmailId'' \<mapsto> aws_devAccountEmailId, ''devAccount'' \<mapsto> aws_devAccount)"
  by (simp add: deploy_def aws_program_def aws_devAccountEmailId_def aws_devAccount_def
      resource_def)

text \<open>
  C8. The account project declares one account. It is protected, and it is closed when
  deleted because the declaration says so: both flags are written out. The first run
  creates it; the declaration has no argument that a stack, a configuration value or a
  later run could change, so after any deployment every later run leaves the account as
  it is, and likewise the random identifier its e-mail address is built from.
\<close>

theorem account_created_once_and_protected:
  "filter (\<lambda>d. rtype d = ''aws.organizations.Account'') aws_program = [aws_devAccount] \<and>
   kind aws_devAccount = New \<and>
   protect aws_devAccount = True \<and>
   map_of (args aws_devAccount) ''closeOnDeletion'' = Some (Bool True) \<and>
   deps aws_devAccount = [''devAccountEmailId''] \<and>
   deps aws_devAccountEmailId = [] \<and>
   plan Map.empty aws_devAccount = Create \<and>
   plan (deploy st aws_program) aws_devAccount = Same \<and>
   plan (deploy st aws_program) aws_devAccountEmailId = Same"
proof -
  have "plan (deploy st aws_program) aws_devAccount = Same"
    and "plan (deploy st aws_program) aws_devAccountEmailId = Same"
    unfolding deploy_aws_program
    by (simp_all add: plan_def aws_devAccountEmailId_def aws_devAccount_def resource_def)
  then show ?thesis
    by (simp add: aws_program_def aws_devAccountEmailId_def aws_devAccount_def resource_def
        deps_def plan_def)
qed

section \<open>The stacks that resolve\<close>

text \<open>
  C9, as amended. The mapping the account project publishes has the single key \<open>dev\<close>.
  For every other stack name that is not the name of a property every JavaScript object
  inherits, the account resolution raises a TypeError in the shared and in the service
  project, and the provider's arguments are rejected.
\<close>

theorem only_dev_resolves:
  assumes "awsMainStack e = aws_outputs devAccountId"
    and "stack e \<noteq> ''dev''"
    and "stack e \<notin> set object_prototype"
  shows "dom (aws_accounts devAccountId) = {''dev''} \<and>
         shared_account_member e id' = Inl TypeError \<and>
         shared_account_member e arn = Inl TypeError \<and>
         api_account_member e id' = Inl TypeError \<and>
         api_account_member e arn = Inl TypeError \<and>
         rejected (shared_provider e region) \<and>
         rejected (api_provider e)"
proof -
  have d: "dom (aws_accounts devAccountId) = {''dev''}"
    by (simp add: aws_accounts_def)
  from assms(1) have 1: "getOutput (awsMainStack e) ''accounts'' = Some (aws_accounts devAccountId)"
    by (simp add: getOutput_def aws_outputs_def)
  from assms(2) have 2: "aws_accounts devAccountId (stack e) = None"
    by (simp add: aws_accounts_def)
  have s: "shared_account_member e f = Inl TypeError" for f
    using 1 2 assms(3) by (rule shared_account_member_missing)
  have a: "api_account_member e f = Inl TypeError" for f
    using 1 2 assms(3) by (rule api_account_member_missing)
  from d s a shared_provider_rejected [OF s] api_provider_rejected [OF a]
  show ?thesis by simp
qed

theorem only_dev_resolves_witness:
  "shared_account_member
     \<lparr>project = ''shared'', stack = ''prod'',
      config = [''aws:region'' \<mapsto> ''eu-west-2'', ''shared:cfZoneId'' \<mapsto> ''z1''],
      awsMainStack = aws_outputs ''111'',
      shared = Map.empty, dkimTokens = [], azNames = []\<rparr> id' = Inl TypeError \<and>
   api_account_member
     \<lparr>project = ''api'', stack = ''staging'', config = Map.empty,
      awsMainStack = aws_outputs ''111'',
      shared = Map.empty, dkimTokens = [], azNames = []\<rparr> arn = Inl TypeError"
  using only_dev_resolves
    [of "\<lparr>project = ''shared'', stack = ''prod'',
      config = [''aws:region'' \<mapsto> ''eu-west-2'', ''shared:cfZoneId'' \<mapsto> ''z1''],
      awsMainStack = aws_outputs ''111'',
      shared = Map.empty, dkimTokens = [], azNames = []\<rparr>" "''111''"]
    only_dev_resolves
    [of "\<lparr>project = ''api'', stack = ''staging'', config = Map.empty,
      awsMainStack = aws_outputs ''111'',
      shared = Map.empty, dkimTokens = [], azNames = []\<rparr>" "''111''"]
  by (simp add: object_prototype_def)

text \<open>
  C9 as stated fails: the stack name \<open>constructor\<close> is not \<open>dev\<close>, yet with it nothing
  is raised. The lookup finds the property every object inherits, both members read as
  \<^verbatim>\<open>undefined\<close>, and the provider's arguments are not rejected.
\<close>

theorem only_dev_resolves_counterexample:
  "shared_account_member
     \<lparr>project = ''shared'', stack = ''constructor'',
      config = [''aws:region'' \<mapsto> ''eu-west-2'', ''shared:cfZoneId'' \<mapsto> ''z1''],
      awsMainStack = aws_outputs ''111'',
      shared = Map.empty, dkimTokens = [], azNames = []\<rparr> id' = Inr Undefined \<and>
   api_account_member
     \<lparr>project = ''shared'', stack = ''constructor'',
      config = [''aws:region'' \<mapsto> ''eu-west-2'', ''shared:cfZoneId'' \<mapsto> ''z1''],
      awsMainStack = aws_outputs ''111'',
      shared = Map.empty, dkimTokens = [], azNames = []\<rparr> id' = Inr Undefined \<and>
   \<not> rejected (shared_provider
     \<lparr>project = ''shared'', stack = ''constructor'',
      config = [''aws:region'' \<mapsto> ''eu-west-2'', ''shared:cfZoneId'' \<mapsto> ''z1''],
      awsMainStack = aws_outputs ''111'',
      shared = Map.empty, dkimTokens = [], azNames = []\<rparr> ''eu-west-2'') \<and>
   args (shared_provider
     \<lparr>project = ''shared'', stack = ''constructor'',
      config = [''aws:region'' \<mapsto> ''eu-west-2'', ''shared:cfZoneId'' \<mapsto> ''z1''],
      awsMainStack = aws_outputs ''111'',
      shared = Map.empty, dkimTokens = [], azNames = []\<rparr> ''eu-west-2'') =
     [(''region'', Str ''eu-west-2''),
      (''allowedAccountIds'', Arr [From ''awsMainStack'' Undefined]),
      (''assumeRole'', Obj [(''roleArn'', From ''awsMainStack'' Undefined)])]"
proof -
  let ?e = "\<lparr>project = ''shared'', stack = ''constructor'',
      config = [''aws:region'' \<mapsto> ''eu-west-2'', ''shared:cfZoneId'' \<mapsto> ''z1''],
      awsMainStack = aws_outputs ''111'',
      shared = Map.empty, dkimTokens = [], azNames = []\<rparr>"
  have s: "shared_account_member ?e f = Inr Undefined" for f
    by (simp add: shared_account_member_def shared_accounts_def getOutput_def aws_outputs_def
        aws_accounts_def js_index_def js_member_def object_prototype_def)
  have a: "api_account_member ?e f = Inr Undefined" for f
    by (simp add: api_account_member_def requireOutput_def aws_outputs_def
        aws_accounts_def js_index_def js_member_def object_prototype_def)
  show ?thesis
    by (simp add: s a rejected_def shared_provider_def resource_def output_of_def)
qed

section \<open>The database\<close>

text \<open>
  C10. Whatever the environment, the database instance is declared publicly accessible
  and in the subnet group \<open>rdsSubnetGroup\<close>, which is made of the public subnets of the
  network; the instance belongs to the cluster \<open>rdsCluster\<close>, whose one security group
  is \<open>rdsSecurityGroup\<close>, and that group's one ingress rule admits TCP on port 5432
  from \<open>0.0.0.0/0\<close>. All of them are among the declarations of the shared project.
\<close>

theorem database_publicly_reachable:
  "map_of (args (shared_rdsInstance e)) ''publiclyAccessible'' = Some (Bool True) \<and>
   map_of (args (shared_rdsInstance e)) ''dbSubnetGroupName'' =
     Some (Out (var (shared_rdsSubnetGroup e)) [''name'']) \<and>
   map_of (args (shared_rdsSubnetGroup e)) ''subnetIds'' =
     Some (Out (var (shared_vpc e)) [''publicSubnetIds'']) \<and>
   map_of (args (shared_rdsInstance e)) ''clusterIdentifier'' =
     Some (Out (var (shared_rdsCluster e)) [''id'']) \<and>
   map_of (args (shared_rdsCluster e)) ''vpcSecurityGroupIds'' =
     Some (Arr [Out (var (shared_rdsSecurityGroup e)) [''id'']]) \<and>
   map_of (args (shared_rdsSecurityGroup e)) ''ingress'' =
     Some (Arr [Obj [(''protocol'', Str ''tcp''), (''fromPort'', Num 5432),
                     (''toPort'', Num 5432), (''cidrBlocks'', Arr [Str ''0.0.0.0/0''])]]) \<and>
   set [shared_vpc e, shared_rdsSecurityGroup e, shared_rdsSubnetGroup e, shared_rdsCluster e,
        shared_rdsInstance e] \<subseteq> set (shared_resources e region cfZoneId)"
proof -
  have "set [shared_vpc e, shared_rdsSecurityGroup e, shared_rdsSubnetGroup e,
        shared_rdsCluster e, shared_rdsInstance e] \<subseteq> set (shared_resources e region cfZoneId)"
    by (simp add: shared_resources_mem)
  moreover have
    "map_of (args (shared_rdsInstance e)) ''publiclyAccessible'' = Some (Bool True)"
    "map_of (args (shared_rdsInstance e)) ''dbSubnetGroupName'' =
       Some (Out (var (shared_rdsSubnetGroup e)) [''name''])"
    "map_of (args (shared_rdsInstance e)) ''clusterIdentifier'' =
       Some (Out (var (shared_rdsCluster e)) [''id''])"
    by (simp_all add: shared_rdsInstance_def with_provider_def resource_def)
  moreover have "map_of (args (shared_rdsSubnetGroup e)) ''subnetIds'' =
     Some (Out (var (shared_vpc e)) [''publicSubnetIds''])"
    by (simp add: shared_rdsSubnetGroup_def with_provider_def resource_def)
  moreover have "map_of (args (shared_rdsCluster e)) ''vpcSecurityGroupIds'' =
     Some (Arr [Out (var (shared_rdsSecurityGroup e)) [''id'']])"
    by (simp add: shared_rdsCluster_def with_provider_def resource_def)
  moreover have "map_of (args (shared_rdsSecurityGroup e)) ''ingress'' =
     Some (Arr [Obj [(''protocol'', Str ''tcp''), (''fromPort'', Num 5432),
                     (''toPort'', Num 5432), (''cidrBlocks'', Arr [Str ''0.0.0.0/0''])]])"
    by (simp add: shared_rdsSecurityGroup_def with_provider_def resource_def)
  ultimately show ?thesis by simp
qed

end
